theory Spec2Isabelle
  imports Complex_Main
begin

section \<open>Strings\<close>

text \<open>
  A JavaScript string is modelled as a \<^typ>\<open>string\<close>: a list of code units, each below 256.
  That is exactly the range of the "binary strings" \<open>atob\<close> returns, which is where the
  e-mail bodies of this program come from.
\<close>

abbreviation dq :: char where "dq \<equiv> CHR 0x22"
abbreviation bsl :: char where "bsl \<equiv> CHR 0x5C"
abbreviation sq :: char where "sq \<equiv> CHR 0x27"

definition code :: "char \<Rightarrow> int" where
  "code c = of_char c"

definition in_range :: "int \<Rightarrow> int \<Rightarrow> char \<Rightarrow> bool" where
  "in_range lo hi c = (lo \<le> code c \<and> code c \<le> hi)"

text \<open>Upper-case letters (ASCII and Latin-1) differ from their lower-case letter in bit 5 only.\<close>

definition is_upper :: "char \<Rightarrow> bool" where
  "is_upper c = (in_range 0x41 0x5A c \<or> (in_range 0xC0 0xDE c \<and> code c \<noteq> 0xD7))"

definition is_lower :: "char \<Rightarrow> bool" where
  "is_lower c = (in_range 0x61 0x7A c \<or> (in_range 0xE0 0xFE c \<and> code c \<noteq> 0xF7))"

fun set_bit5 :: "bool \<Rightarrow> char \<Rightarrow> char" where
  "set_bit5 b (Char b0 b1 b2 b3 b4 b5 b6 b7) = Char b0 b1 b2 b3 b4 b b6 b7"

definition lower_char :: "char \<Rightarrow> char" where
  "lower_char c = (if is_upper c then set_bit5 True c else c)"

definition upper_char :: "char \<Rightarrow> char" where
  "upper_char c = (if is_lower c then set_bit5 False c else c)"

definition toLowerCase :: "string \<Rightarrow> string" where
  "toLowerCase s = map lower_char s"

fun startsWith :: "string \<Rightarrow> string \<Rightarrow> bool" where
  "startsWith s [] = True"
| "startsWith [] (p # ps) = False"
| "startsWith (c # cs) (p # ps) = (c = p \<and> startsWith cs ps)"

fun str_includes :: "string \<Rightarrow> string \<Rightarrow> bool" where
  "str_includes [] p = (p = [])"
| "str_includes (c # cs) p = (startsWith (c # cs) p \<or> str_includes cs p)"

section \<open>The category set and the keyword classifier\<close>

definition EXPENSE_CATEGORIES :: "string list" where
  "EXPENSE_CATEGORIES =
    [''Groceries'', ''Transportation'', ''Food & Dining'', ''Shopping'', ''Utilities'',
     ''Healthcare'', ''Entertainment'', ''Education'', ''Insurance'', ''Travel'',
     ''Home & Garden'', ''Personal Care'', ''Business'', ''Gifts & Donations'', ''Other'']"

definition determineCategory :: "string \<Rightarrow> string" where
  "determineCategory merchant =
    (let merchantLower = toLowerCase merchant in
     if str_includes merchantLower ''grocery'' \<or> str_includes merchantLower ''market'' \<or>
        str_includes merchantLower ''supermarket'' \<or> str_includes merchantLower ''food''
     then ''Groceries''
     else if str_includes merchantLower ''gas'' \<or> str_includes merchantLower ''fuel'' \<or>
        str_includes merchantLower ''shell'' \<or> str_includes merchantLower ''exxon''
     then ''Transportation''
     else if str_includes merchantLower ''restaurant'' \<or> str_includes merchantLower ''cafe'' \<or>
        str_includes merchantLower ''pizza'' \<or> str_includes merchantLower ''burger''
     then ''Food & Dining''
     else if str_includes merchantLower ''amazon'' \<or> str_includes merchantLower ''shop''
     then ''Shopping''
     else if str_includes merchantLower ''electric'' \<or> str_includes merchantLower ''water'' \<or>
        str_includes merchantLower ''internet'' \<or> str_includes merchantLower ''phone''
     then ''Utilities''
     else if str_includes merchantLower ''pharmacy'' \<or> str_includes merchantLower ''medical'' \<or>
        str_includes merchantLower ''doctor'' \<or> str_includes merchantLower ''hospital''
     then ''Healthcare''
     else if str_includes merchantLower ''movie'' \<or> str_includes merchantLower ''theater'' \<or>
        str_includes merchantLower ''netflix'' \<or> str_includes merchantLower ''spotify''
     then ''Entertainment''
     else ''Other'')"

definition fallback_labels :: "string list" where
  "fallback_labels =
    [''Groceries'', ''Transportation'', ''Food & Dining'', ''Shopping'', ''Utilities'',
     ''Healthcare'', ''Entertainment'', ''Other'']"

fun dropWhileEnd_ws :: "(char \<Rightarrow> bool) \<Rightarrow> string \<Rightarrow> string" where
  "dropWhileEnd_ws P s = rev (dropWhile P (rev s))"

definition is_ws :: "char \<Rightarrow> bool" where
  "is_ws c = (in_range 9 13 c \<or> code c = 32 \<or> code c = 160)"

definition trim :: "string \<Rightarrow> string" where
  "trim s = dropWhileEnd_ws is_ws (dropWhile is_ws s)"

text \<open>\<open>s.split(d)\<close> for a one-character separator, and \<open>s.replace(c, r)\<close> with a string
  pattern of one character, which replaces the first occurrence only.\<close>

fun split_on :: "char \<Rightarrow> string \<Rightarrow> string list" where
  "split_on d [] = [[]]"
| "split_on d (c # cs) =
     (if c = d then [] # split_on d cs
      else (case split_on d cs of [] \<Rightarrow> [[c]] | w # ws \<Rightarrow> (c # w) # ws))"

fun replace_first_char :: "char \<Rightarrow> string \<Rightarrow> string \<Rightarrow> string" where
  "replace_first_char d r [] = []"
| "replace_first_char d r (c # cs) = (if c = d then r @ cs else c # replace_first_char d r cs)"

section \<open>Regular expressions\<close>

text \<open>
  The regular expressions of the program are sequences of single characters, character
  classes, greedy \<open>*\<close> and \<open>+\<close> over one character or class, capture groups and the anchors
  \<open>^\<close> and \<open>$\<close>. \<open>rmatch\<close> is the backtracking matcher of ECMAScript on that fragment: a
  quantifier takes as many characters as it can and gives them back one at a time.
  Positions are absolute offsets into the subject; \<open>caps\<close> holds the span of every group.
\<close>

datatype cset = Ch char | Cls bool "(int \<times> int) list"

fun in_ranges :: "(int \<times> int) list \<Rightarrow> int \<Rightarrow> bool" where
  "in_ranges [] n = False"
| "in_ranges ((lo, hi) # rs) n = ((lo \<le> n \<and> n \<le> hi) \<or> in_ranges rs n)"

fun cmatch :: "bool \<Rightarrow> cset \<Rightarrow> char \<Rightarrow> bool" where
  "cmatch ic (Ch p) c = (if ic then upper_char p = upper_char c else p = c)"
| "cmatch ic (Cls neg rs) c =
     ((in_ranges rs (code c) \<or>
       (ic \<and> (in_ranges rs (code (upper_char c)) \<or> in_ranges rs (code (lower_char c))))) \<noteq> neg)"

datatype item = One cset | Star cset | Plus cset | GOpen | GClose | Bol | Eol

type_synonym caps = "(nat \<times> nat) list"

fun close_group :: "caps \<Rightarrow> nat \<Rightarrow> nat \<Rightarrow> caps" where
  "close_group cs i pos = cs[i := (fst (cs ! i), pos)]"

fun rmatch :: "bool \<Rightarrow> item list \<Rightarrow> string \<Rightarrow> nat \<Rightarrow> nat list \<Rightarrow> caps \<Rightarrow> (nat \<times> caps) option" where
  "rmatch ic [] s pos st cs = Some (pos, cs)"
| "rmatch ic (One a # r) [] pos st cs = None"
| "rmatch ic (One a # r) (c # s) pos st cs =
     (if cmatch ic a c then rmatch ic r s (Suc pos) st cs else None)"
| "rmatch ic (Star a # r) [] pos st cs = rmatch ic r [] pos st cs"
| "rmatch ic (Star a # r) (c # s) pos st cs =
     (if cmatch ic a c
      then (case rmatch ic (Star a # r) s (Suc pos) st cs of
              Some res \<Rightarrow> Some res
            | None \<Rightarrow> rmatch ic r (c # s) pos st cs)
      else rmatch ic r (c # s) pos st cs)"
| "rmatch ic (Plus a # r) [] pos st cs = None"
| "rmatch ic (Plus a # r) (c # s) pos st cs =
     (if cmatch ic a c then rmatch ic (Star a # r) s (Suc pos) st cs else None)"
| "rmatch ic (GOpen # r) s pos st cs = rmatch ic r s pos (length cs # st) (cs @ [(pos, pos)])"
| "rmatch ic (GClose # r) s pos [] cs = None"
| "rmatch ic (GClose # r) s pos (i # st) cs = rmatch ic r s pos st (close_group cs i pos)"
| "rmatch ic (Bol # r) s pos st cs = (if pos = 0 then rmatch ic r s pos st cs else None)"
| "rmatch ic (Eol # r) s pos st cs = (if s = [] then rmatch ic r s pos st cs else None)"

text \<open>The leftmost match at or after \<open>pos\<close>: its start, its end and its groups.\<close>

fun search_from :: "bool \<Rightarrow> item list \<Rightarrow> string \<Rightarrow> nat \<Rightarrow> (nat \<times> nat \<times> caps) option" where
  "search_from ic p [] pos =
     (case rmatch ic p [] pos [] [] of Some (e, cs) \<Rightarrow> Some (pos, e, cs) | None \<Rightarrow> None)"
| "search_from ic p (c # s) pos =
     (case rmatch ic p (c # s) pos [] [] of
        Some (e, cs) \<Rightarrow> Some (pos, e, cs)
      | None \<Rightarrow> search_from ic p s (Suc pos))"

definition slice :: "string \<Rightarrow> nat \<Rightarrow> nat \<Rightarrow> string" where
  "slice s a b = take (b - a) (drop a s)"

text \<open>\<open>s.match(re)\<close> for a regular expression without the \<open>g\<close> flag: the matched text and
  the text of each group, or \<open>None\<close> for \<open>null\<close>.\<close>

definition js_match :: "bool \<Rightarrow> item list \<Rightarrow> string \<Rightarrow> (string \<times> string list) option" where
  "js_match ic p s =
     (case search_from ic p s 0 of
        None \<Rightarrow> None
      | Some (a, e, cs) \<Rightarrow> Some (slice s a e, map (\<lambda>(b, f). slice s b f) cs))"

text \<open>\<open>m?.[1]\<close>: the first group of a match.\<close>

definition group1 :: "(string \<times> string list) option \<Rightarrow> string option" where
  "group1 m = (case m of None \<Rightarrow> None | Some (w, []) \<Rightarrow> None | Some (w, g # gs) \<Rightarrow> Some g)"

abbreviation lit :: "string \<Rightarrow> item list" where
  "lit s \<equiv> map (\<lambda>c. One (Ch c)) s"

abbreviation space_cls :: cset where
  "space_cls \<equiv> Cls False [(9, 13), (32, 32), (160, 160)]"

abbreviation not_ch :: "char \<Rightarrow> cset" where
  "not_ch c \<equiv> Cls True [(code c, code c)]"

abbreviation one_of :: "string \<Rightarrow> cset" where
  "one_of s \<equiv> Cls False (map (\<lambda>c. (code c, code c)) s)"

abbreviation any_ch :: cset where
  "any_ch \<equiv> Cls True []"

section \<open>Numbers and \<open>parseFloat\<close>\<close>

text \<open>
  A JavaScript number is NaN, an infinity or a finite value. \<open>parseFloat\<close> skips leading white
  space, takes the longest prefix that is a decimal literal (an optional sign, then
  \<open>Infinity\<close> or digits with an optional fraction and exponent) and yields NaN when there is
  none. A literal of magnitude at least \<open>2^1024 - 2^970\<close> rounds to an infinity and one of
  magnitude at most \<open>2^-1075\<close> rounds to zero; between the two the value is kept exact, which
  is enough for the comparisons with zero the program makes.
\<close>

datatype jsnum = NaN | PInf | NInf | Fin rat

definition isNaN :: "jsnum \<Rightarrow> bool" where
  "isNaN x = (x = NaN)"

fun le_zero :: "jsnum \<Rightarrow> bool" where
  "le_zero NaN = False"
| "le_zero PInf = False"
| "le_zero NInf = True"
| "le_zero (Fin q) = (q \<le> 0)"

definition is_digit :: "char \<Rightarrow> bool" where
  "is_digit c = in_range 48 57 c"

definition digits_val :: "string \<Rightarrow> int" where
  "digits_val ds = foldl (\<lambda>n c. 10 * n + (code c - 48)) 0 ds"

text \<open>The exponent part \<open>e\<close>, optional sign, digits; it belongs to the literal only when at
  least one digit follows.\<close>

definition exponent_part :: "string \<Rightarrow> int" where
  "exponent_part r =
     (case r of
        [] \<Rightarrow> 0
      | c # r1 \<Rightarrow>
          if c = CHR ''e'' \<or> c = CHR ''E'' then
            (case r1 of
               [] \<Rightarrow> 0
             | d # r2 \<Rightarrow>
                 if d = CHR ''-'' then
                   (if takeWhile is_digit r2 = [] then 0 else - digits_val (takeWhile is_digit r2))
                 else if d = CHR ''+'' then digits_val (takeWhile is_digit r2)
                 else digits_val (takeWhile is_digit r1))
          else 0)"

text \<open>The value \<open>m * 10^e\<close> of a literal, rounded to an infinity or to zero at the two ends
  of the binary64 range.\<close>

definition round_literal :: "int \<Rightarrow> int \<Rightarrow> jsnum" where
  "round_literal m e =
     (if m = 0 then Fin 0
      else if 0 \<le> e then
        (if 2 ^ 1024 - 2 ^ 970 \<le> m * 10 ^ nat e then PInf else Fin (of_int (m * 10 ^ nat e)))
      else
        (if (2 ^ 1024 - 2 ^ 970) * 10 ^ nat (- e) \<le> m then PInf
         else if m * 2 ^ 1075 \<le> 10 ^ nat (- e) then Fin 0
         else Fin (Fract m (10 ^ nat (- e)))))"

fun negate :: "jsnum \<Rightarrow> jsnum" where
  "negate NaN = NaN"
| "negate PInf = NInf"
| "negate NInf = PInf"
| "negate (Fin q) = Fin (- q)"

definition unsigned_literal :: "string \<Rightarrow> jsnum" where
  "unsigned_literal r =
     (if startsWith r ''Infinity'' then PInf
      else
        (let ip = takeWhile is_digit r;
             r1 = dropWhile is_digit r;
             fp = (case r1 of [] \<Rightarrow> [] | c # r' \<Rightarrow> if c = CHR ''.'' then takeWhile is_digit r' else []);
             r2 = (case r1 of [] \<Rightarrow> [] | c # r' \<Rightarrow> if c = CHR ''.'' then dropWhile is_digit r' else r1) in
         if ip = [] \<and> fp = [] then NaN
         else round_literal (digits_val (ip @ fp)) (exponent_part r2 - int (length fp))))"

definition parseFloat :: "string \<Rightarrow> jsnum" where
  "parseFloat s =
     (case dropWhile is_ws s of
        [] \<Rightarrow> NaN
      | c # r \<Rightarrow>
          if c = CHR ''-'' then negate (unsigned_literal r)
          else if c = CHR ''+'' then unsigned_literal r
          else unsigned_literal (c # r))"

section \<open>Field extraction from an e-mail body\<close>

text \<open>
  Instants are milliseconds since the epoch. The \<open>date\<close> of an expense is the ISO-8601 string
  \<open>toISOString\<close> gives for an instant; it is identified with the instant, which \<open>new Date\<close>
  reads back from it. How \<open>new Date(text)\<close> reads any other text depends on the engine, so
  it is a parameter \<open>dateParse\<close> (\<open>None\<close> is an invalid date), as is the clock \<open>now\<close>.
\<close>

type_synonym instant = int

record ParsedExpense =
  amount :: jsnum
  merchant :: string
  date :: instant
  category :: "string option"
  location :: "string option"
  currency :: "string option"

text \<open>The four patterns \<open><p>\s*LABEL<\/p>\s*<\/td>\s*<td[^>]*>\s*<p>\s*([^<]+)\<close>, flag \<open>i\<close>.\<close>

definition field_re :: "string \<Rightarrow> item list" where
  "field_re label =
     lit ''<p>'' @ [Star space_cls] @ lit label @ lit ''</p>'' @ [Star space_cls] @ lit ''</td>'' @ [Star space_cls] @
     lit ''<td'' @ [Star (not_ch CHR ''>'')] @ lit ''>'' @ [Star space_cls] @ lit ''<p>'' @ [Star space_cls] @
     [GOpen, Plus (not_ch CHR ''<''), GClose]"

definition extract_commerce :: "string \<Rightarrow> string option" where
  "extract_commerce text = map_option trim (group1 (js_match True (field_re ''Comercio:'') text))"

definition extract_dateMatch :: "string \<Rightarrow> string option" where
  "extract_dateMatch text = map_option trim (group1 (js_match True (field_re ''Fecha:'') text))"

definition extract_location :: "string \<Rightarrow> string option" where
  "extract_location text =
     map_option (\<lambda>g. replace_first_char CHR '','' ''.'' (trim g))
       (group1 (js_match True (field_re ''Ciudad y pa&iacute;s:'') text))"

definition extract_montoMatch :: "string \<Rightarrow> string list option" where
  "extract_montoMatch text =
     map_option (\<lambda>g. split_on CHR '' '' (replace_first_char CHR '','' [] (trim g)))
       (group1 (js_match True (field_re ''Monto:'') text))"

text \<open>The date of the transaction: the body's date, else the header's, else the clock.
  An empty \<open>dateMatch\<close> is falsy and takes the branch of a missing one.\<close>

definition header_or_now :: "(string \<Rightarrow> instant option) \<Rightarrow> instant \<Rightarrow> string \<Rightarrow> instant" where
  "header_or_now dateParse now hdr =
     (case dateParse hdr of Some headerDate \<Rightarrow> headerDate | None \<Rightarrow> now)"

definition resolve_date :: "(string \<Rightarrow> instant option) \<Rightarrow> instant \<Rightarrow> string option \<Rightarrow> string \<Rightarrow> instant" where
  "resolve_date dateParse now dateMatch hdr =
     (case dateMatch of
        None \<Rightarrow> header_or_now dateParse now hdr
      | Some d \<Rightarrow>
          if d = [] then header_or_now dateParse now hdr
          else (case dateParse d of
                  Some parsedDate \<Rightarrow> parsedDate
                | None \<Rightarrow> header_or_now dateParse now hdr))"

text \<open>\<open>location || 'Costa Rica'\<close>: the default replaces a missing or empty value.\<close>

definition or_default :: "string option \<Rightarrow> string \<Rightarrow> string" where
  "or_default v d = (case v of None \<Rightarrow> d | Some s \<Rightarrow> if s = [] then d else s)"

definition parseExpenseFromTextWithoutAI ::
    "(string \<Rightarrow> instant option) \<Rightarrow> instant \<Rightarrow> string \<Rightarrow> string \<Rightarrow> string \<Rightarrow> ParsedExpense option" where
  "parseExpenseFromTextWithoutAI dateParse now text from hdr =
     (let commerce = extract_commerce text;
          dateMatch = extract_dateMatch text;
          loc = extract_location text;
          montoMatch = extract_montoMatch text in
      case commerce of
        None \<Rightarrow> None
      | Some com \<Rightarrow>
          if com = [] then None
          else
            (case montoMatch of
               None \<Rightarrow> None
             | Some [] \<Rightarrow> None
             | Some [cur] \<Rightarrow> None
             | Some (cur # amountStr # rest) \<Rightarrow>
                 (let amt = parseFloat amountStr in
                  if isNaN amt \<or> le_zero amt then None
                  else Some \<lparr> amount = amt,
                              merchant = com,
                              date = resolve_date dateParse now dateMatch hdr,
                              category = Some ''Other'',
                              location = Some (or_default loc ''Costa Rica''),
                              currency = Some cur \<rparr>)))"

section \<open>Messages and \<open>atob\<close>\<close>

text \<open>
  \<open>atob\<close> is the forgiving base64 decoder: it drops ASCII white space, drops one or two
  padding signs when the length is a multiple of four, and raises on a length of
  \<open>1 mod 4\<close> or on a character outside the alphabet.
\<close>

datatype error = InvalidCharacterError | TypeError | SyntaxError | NetworkError | HttpError nat

definition b64_index :: "char \<Rightarrow> int option" where
  "b64_index c =
     (if in_range 0x41 0x5A c then Some (code c - 0x41)
      else if in_range 0x61 0x7A c then Some (code c - 0x61 + 26)
      else if in_range 0x30 0x39 c then Some (code c - 0x30 + 52)
      else if c = CHR ''+'' then Some 62
      else if c = CHR ''/'' then Some 63
      else None)"

definition is_ascii_ws :: "char \<Rightarrow> bool" where
  "is_ascii_ws c = (code c = 9 \<or> code c = 10 \<or> code c = 12 \<or> code c = 13 \<or> code c = 32)"

definition strip_padding :: "string \<Rightarrow> string" where
  "strip_padding s =
     (if length s mod 4 = 0 then
        (if 2 \<le> length s \<and> drop (length s - 2) s = ''=='' then take (length s - 2) s
         else if 1 \<le> length s \<and> drop (length s - 1) s = ''='' then take (length s - 1) s
         else s)
      else s)"

definition byte :: "int \<Rightarrow> char" where
  "byte n = char_of (n mod 256)"

fun b64_bytes :: "int list \<Rightarrow> string" where
  "b64_bytes (a # b # c # d # r) =
     byte (a * 4 + b div 16) # byte (b * 16 + c div 4) # byte (c * 64 + d) # b64_bytes r"
| "b64_bytes [a, b, c] = [byte (a * 4 + b div 16), byte (b * 16 + c div 4)]"
| "b64_bytes [a, b] = [byte (a * 4 + b div 16)]"
| "b64_bytes r = []"

definition atob :: "string \<Rightarrow> error + string" where
  "atob s =
     (let t = strip_padding (filter (\<lambda>c. \<not> is_ascii_ws c) s) in
      if length t mod 4 = 1 \<or> list_ex (\<lambda>c. b64_index c = None) t then Inl InvalidCharacterError
      else Inr (b64_bytes (map (\<lambda>c. case b64_index c of Some n \<Rightarrow> n | None \<Rightarrow> 0) t)))"

record MessagePart =
  mimeType :: string
  part_data :: "string option"

record GmailMessage =
  msg_id :: string
  headers :: "(string \<times> string) list"
  body_data :: "string option"
  parts :: "MessagePart list option"

text \<open>\<open>headers.find(h => h.name === n)?.value || ''\<close>\<close>

definition header_value :: "(string \<times> string) list \<Rightarrow> string \<Rightarrow> string" where
  "header_value hs n = (case find (\<lambda>h. fst h = n) hs of None \<Rightarrow> [] | Some h \<Rightarrow> snd h)"

text \<open>\<open>data.replace(/-/g, '+').replace(/_/g, '/')\<close>\<close>

definition from_base64url :: "string \<Rightarrow> string" where
  "from_base64url d = map (\<lambda>c. if c = CHR ''_'' then CHR ''/'' else c) (map (\<lambda>c. if c = CHR ''-'' then CHR ''+'' else c) d)"

text \<open>\<open>part?.body.data\<close> as a condition: the part exists and its data is a non-empty string.\<close>

definition truthy_data :: "MessagePart option \<Rightarrow> string option" where
  "truthy_data p =
     (case p of
        None \<Rightarrow> None
      | Some q \<Rightarrow> (case part_data q of None \<Rightarrow> None | Some d \<Rightarrow> if d = [] then None else Some d))"

definition htmlContent_of :: "GmailMessage \<Rightarrow> error + string" where
  "htmlContent_of message =
     (case parts message of
        Some ps \<Rightarrow>
          (case truthy_data (find (\<lambda>p. mimeType p = ''text/html'') ps) of
             Some d \<Rightarrow> atob (from_base64url d)
           | None \<Rightarrow>
               (case truthy_data (find (\<lambda>p. mimeType p = ''text/plain'') ps) of
                  Some d \<Rightarrow> atob (from_base64url d)
                | None \<Rightarrow> Inr []))
      | None \<Rightarrow>
          (case body_data message of
             None \<Rightarrow> Inr []
           | Some d \<Rightarrow> if d = [] then Inr [] else atob (from_base64url d)))"

text \<open>The whole body of \<open>parseExpenseEmailWithoutAI\<close> runs inside \<open>try\<close>; the handler
  returns \<open>null\<close>.\<close>

definition parseExpenseEmailWithoutAI ::
    "(string \<Rightarrow> instant option) \<Rightarrow> instant \<Rightarrow> GmailMessage \<Rightarrow> ParsedExpense option" where
  "parseExpenseEmailWithoutAI dateParse now message =
     (let from = header_value (headers message) ''From'';
          hdr = header_value (headers message) ''Date'' in
      case htmlContent_of message of
        Inl err \<Rightarrow> None
      | Inr htmlContent \<Rightarrow> parseExpenseFromTextWithoutAI dateParse now htmlContent from hdr)"

section \<open>\<open>JSON.parse\<close>\<close>

text \<open>
  \<open>JSON.parse\<close> follows the JSON grammar: a lexer (a state machine over the characters)
  and a pushdown parser over its tokens. A number keeps its lexeme. A string is decoded;
  an escape \<open>\uXXXX\<close> above \<open>00FF\<close> has no character here and keeps its escaped spelling.
  \<open>None\<close> is the \<open>SyntaxError\<close> the function throws.
\<close>

datatype json =
    JNull
  | JBool bool
  | JNum string
  | JStr string
  | JArr "json list"
  | JObj "(string \<times> json) list"

datatype tok =
    TLBrace | TRBrace | TLBrack | TRBrack | TColon | TComma
  | TStr string | TNum string | TWord json

datatype numst = NMinus | NZero | NInt | NDot | NFrac | NE | NESign | NExp

datatype lexst =
    LDefault
  | LStr string
  | LEsc string
  | LUni string string
  | LNum numst string
  | LWord string json

definition is_json_ws :: "char \<Rightarrow> bool" where
  "is_json_ws c = (c = CHR '' '' \<or> c = CHR 0x09 \<or> c = CHR 0x0A \<or> c = CHR 0x0D)"

definition is_hex :: "char \<Rightarrow> bool" where
  "is_hex c = (is_digit c \<or> in_range 0x41 0x46 c \<or> in_range 0x61 0x66 c)"

definition hex_val :: "char \<Rightarrow> int" where
  "hex_val c =
     (if is_digit c then code c - 0x30
      else if in_range 0x41 0x46 c then code c - 0x41 + 10
      else code c - 0x61 + 10)"

text \<open>The characters of a decoded \<open>\uXXXX\<close>, reversed (the lexer accumulates in reverse).\<close>

definition decode_u_rev :: "string \<Rightarrow> string" where
  "decode_u_rev h =
     (let n = foldl (\<lambda>a c. 16 * a + hex_val c) 0 h in
      if n < 256 then [char_of n] else rev ([bsl, CHR ''u''] @ h))"

definition unescape :: "char \<Rightarrow> char option" where
  "unescape c =
     (if c = dq then Some dq
      else if c = bsl then Some bsl
      else if c = CHR ''/'' then Some CHR ''/''
      else if c = CHR ''b'' then Some (CHR 0x08)
      else if c = CHR ''f'' then Some (CHR 0x0C)
      else if c = CHR ''n'' then Some (CHR 0x0A)
      else if c = CHR ''r'' then Some (CHR 0x0D)
      else if c = CHR ''t'' then Some (CHR 0x09)
      else None)"

text \<open>What a character starts when no token is open: the next state and a finished token.\<close>

definition lex_start :: "char \<Rightarrow> (lexst \<times> tok option) option" where
  "lex_start c =
     (if is_json_ws c then Some (LDefault, None)
      else if c = CHR ''{'' then Some (LDefault, Some TLBrace)
      else if c = CHR ''}'' then Some (LDefault, Some TRBrace)
      else if c = CHR ''['' then Some (LDefault, Some TLBrack)
      else if c = CHR '']'' then Some (LDefault, Some TRBrack)
      else if c = CHR '':'' then Some (LDefault, Some TColon)
      else if c = CHR '','' then Some (LDefault, Some TComma)
      else if c = dq then Some (LStr [], None)
      else if c = CHR ''-'' then Some (LNum NMinus [c], None)
      else if c = CHR ''0'' then Some (LNum NZero [c], None)
      else if is_digit c then Some (LNum NInt [c], None)
      else if c = CHR ''t'' then Some (LWord ''rue'' (JBool True), None)
      else if c = CHR ''f'' then Some (LWord ''alse'' (JBool False), None)
      else if c = CHR ''n'' then Some (LWord ''ull'' JNull, None)
      else None)"

fun num_accepting :: "numst \<Rightarrow> bool" where
  "num_accepting NZero = True"
| "num_accepting NInt = True"
| "num_accepting NFrac = True"
| "num_accepting NExp = True"
| "num_accepting ns = False"

definition is_e :: "char \<Rightarrow> bool" where
  "is_e c = (c = CHR ''e'' \<or> c = CHR ''E'')"

fun num_step :: "numst \<Rightarrow> char \<Rightarrow> numst option" where
  "num_step NMinus c = (if c = CHR ''0'' then Some NZero else if is_digit c then Some NInt else None)"
| "num_step NZero c = (if c = CHR ''.'' then Some NDot else if is_e c then Some NE else None)"
| "num_step NInt c =
     (if is_digit c then Some NInt else if c = CHR ''.'' then Some NDot
      else if is_e c then Some NE else None)"
| "num_step NDot c = (if is_digit c then Some NFrac else None)"
| "num_step NFrac c = (if is_digit c then Some NFrac else if is_e c then Some NE else None)"
| "num_step NE c =
     (if c = CHR ''+'' \<or> c = CHR ''-'' then Some NESign else if is_digit c then Some NExp else None)"
| "num_step NESign c = (if is_digit c then Some NExp else None)"
| "num_step NExp c = (if is_digit c then Some NExp else None)"

definition push_tok :: "tok option \<Rightarrow> tok list \<Rightarrow> tok list" where
  "push_tok t acc = (case t of None \<Rightarrow> acc | Some x \<Rightarrow> x # acc)"

fun lex :: "lexst \<Rightarrow> tok list \<Rightarrow> string \<Rightarrow> tok list option" where
  "lex LDefault acc [] = Some (rev acc)"
| "lex (LNum ns lx) acc [] = (if num_accepting ns then Some (rev (TNum (rev lx) # acc)) else None)"
| "lex st acc [] = None"
| "lex LDefault acc (c # cs) =
     (case lex_start c of None \<Rightarrow> None | Some (st, t) \<Rightarrow> lex st (push_tok t acc) cs)"
| "lex (LStr a) acc (c # cs) =
     (if c = dq then lex LDefault (TStr (rev a) # acc) cs
      else if c = bsl then lex (LEsc a) acc cs
      else if code c < 0x20 then None
      else lex (LStr (c # a)) acc cs)"
| "lex (LEsc a) acc (c # cs) =
     (case unescape c of
        Some d \<Rightarrow> lex (LStr (d # a)) acc cs
      | None \<Rightarrow> if c = CHR ''u'' then lex (LUni a []) acc cs else None)"
| "lex (LUni a h) acc (c # cs) =
     (if is_hex c then
        (if length h = 3 then lex (LStr (decode_u_rev (h @ [c]) @ a)) acc cs
         else lex (LUni a (h @ [c])) acc cs)
      else None)"
| "lex (LNum ns lx) acc (c # cs) =
     (case num_step ns c of
        Some ns' \<Rightarrow> lex (LNum ns' (c # lx)) acc cs
      | None \<Rightarrow>
          if num_accepting ns then
            (case lex_start c of
               None \<Rightarrow> None
             | Some (st, t) \<Rightarrow> lex st (push_tok t (TNum (rev lx) # acc)) cs)
          else None)"
| "lex (LWord w v) acc (c # cs) =
     (case w of
        [] \<Rightarrow> None
      | x # w' \<Rightarrow>
          if c = x then (if w' = [] then lex LDefault (TWord v # acc) cs else lex (LWord w' v) acc cs)
          else None)"

text \<open>A key that occurs twice keeps its first place and takes the last value.\<close>

fun obj_put :: "(string \<times> json) list \<Rightarrow> string \<Rightarrow> json \<Rightarrow> (string \<times> json) list" where
  "obj_put [] k v = [(k, v)]"
| "obj_put ((k', v') # kvs) k v = (if k' = k then (k, v) # kvs else (k', v') # obj_put kvs k v)"

datatype frame =
    FArr "json list"
  | FObj "(string \<times> json) list"
  | FObjK "(string \<times> json) list" string

datatype pst = PValue | PFirst | PKeyFirst | PKey | PColon string | PNext | PEnd json

fun value_done :: "json \<Rightarrow> frame list \<Rightarrow> (pst \<times> frame list) option" where
  "value_done v [] = Some (PEnd v, [])"
| "value_done v (FArr es # stk) = Some (PNext, FArr (v # es) # stk)"
| "value_done v (FObjK kvs k # stk) = Some (PNext, FObj (obj_put kvs k v) # stk)"
| "value_done v (FObj kvs # stk) = None"

fun scalar_of :: "tok \<Rightarrow> json option" where
  "scalar_of (TStr s) = Some (JStr s)"
| "scalar_of (TNum n) = Some (JNum n)"
| "scalar_of (TWord v) = Some v"
| "scalar_of t = None"

fun value_start :: "tok \<Rightarrow> frame list \<Rightarrow> (pst \<times> frame list) option" where
  "value_start TLBrack stk = Some (PFirst, FArr [] # stk)"
| "value_start TLBrace stk = Some (PKeyFirst, FObj [] # stk)"
| "value_start t stk = (case scalar_of t of None \<Rightarrow> None | Some v \<Rightarrow> value_done v stk)"

fun close_array :: "frame list \<Rightarrow> (pst \<times> frame list) option" where
  "close_array (FArr es # stk) = value_done (JArr (rev es)) stk"
| "close_array stk = None"

fun close_object :: "frame list \<Rightarrow> (pst \<times> frame list) option" where
  "close_object (FObj kvs # stk) = value_done (JObj kvs) stk"
| "close_object stk = None"

fun pstep :: "pst \<Rightarrow> frame list \<Rightarrow> tok \<Rightarrow> (pst \<times> frame list) option" where
  "pstep PValue stk t = value_start t stk"
| "pstep PFirst stk t = (if t = TRBrack then close_array stk else value_start t stk)"
| "pstep PKeyFirst stk t =
     (case t of TStr k \<Rightarrow> Some (PColon k, stk) | TRBrace \<Rightarrow> close_object stk | _ \<Rightarrow> None)"
| "pstep PKey stk t = (case t of TStr k \<Rightarrow> Some (PColon k, stk) | _ \<Rightarrow> None)"
| "pstep (PColon k) stk t =
     (case (t, stk) of (TColon, FObj kvs # stk') \<Rightarrow> Some (PValue, FObjK kvs k # stk') | _ \<Rightarrow> None)"
| "pstep PNext stk t =
     (case (t, stk) of
        (TComma, FArr es # stk') \<Rightarrow> Some (PValue, stk)
      | (TComma, FObj kvs # stk') \<Rightarrow> Some (PKey, stk)
      | (TRBrack, _) \<Rightarrow> close_array stk
      | (TRBrace, _) \<Rightarrow> close_object stk
      | _ \<Rightarrow> None)"
| "pstep (PEnd v) stk t = None"

fun parse_toks :: "pst \<Rightarrow> frame list \<Rightarrow> tok list \<Rightarrow> json option" where
  "parse_toks st stk [] = (case st of PEnd v \<Rightarrow> Some v | _ \<Rightarrow> None)"
| "parse_toks st stk (t # ts) =
     (case pstep st stk t of None \<Rightarrow> None | Some (st', stk') \<Rightarrow> parse_toks st' stk' ts)"

definition JSON_parse :: "string \<Rightarrow> json option" where
  "JSON_parse s = (case lex LDefault [] s of None \<Rightarrow> None | Some ts \<Rightarrow> parse_toks PValue [] ts)"

section \<open>Replacing with a regular expression\<close>

datatype tpart = RText string | RGroup nat

text \<open>The replacement string with \<open>$n\<close> standing for group \<open>n\<close>; every template of the
  program names groups that its pattern has.\<close>

definition expand :: "tpart list \<Rightarrow> string \<Rightarrow> caps \<Rightarrow> string" where
  "expand t s cs =
     concat (map (\<lambda>p. case p of
                          RText x \<Rightarrow> x
                        | RGroup n \<Rightarrow>
                            if 0 < n \<and> n \<le> length cs
                            then slice s (fst (cs ! (n - 1))) (snd (cs ! (n - 1)))
                            else []) t)"

text \<open>\<open>s.replace(re, t)\<close> without the \<open>g\<close> flag: the leftmost match only.\<close>

definition replace_first :: "bool \<Rightarrow> item list \<Rightarrow> tpart list \<Rightarrow> string \<Rightarrow> string" where
  "replace_first ic p t s =
     (case search_from ic p s 0 of
        None \<Rightarrow> s
      | Some (a, e, cs) \<Rightarrow> take a s @ expand t s cs @ drop e s)"

text \<open>\<open>s.replace(re, t)\<close> with the \<open>g\<close> flag: every match from left to right, the search
  resuming where the last match ended (one character further after an empty match).
  \<open>orig\<close> is the whole subject, \<open>s\<close> what is left of it from offset \<open>pos\<close>.\<close>

function replace_from :: "bool \<Rightarrow> item list \<Rightarrow> tpart list \<Rightarrow> string \<Rightarrow> string \<Rightarrow> nat \<Rightarrow> string" where
  "replace_from ic p t orig s pos =
     (case rmatch ic p s pos [] [] of
        None \<Rightarrow> (case s of [] \<Rightarrow> [] | c # s' \<Rightarrow> c # replace_from ic p t orig s' (Suc pos))
      | Some (e, cs) \<Rightarrow>
          expand t orig cs @
          (case s of
             [] \<Rightarrow> []
           | c # s' \<Rightarrow>
               if pos < e then replace_from ic p t orig (drop (e - Suc pos) s') e
               else c # replace_from ic p t orig s' (Suc pos)))"
  by pat_completeness auto
termination
  by (relation "measure (\<lambda>(ic, p, t, orig, s, pos). length s)") auto

declare replace_from.simps [simp del]

definition replace_all :: "bool \<Rightarrow> item list \<Rightarrow> tpart list \<Rightarrow> string \<Rightarrow> string" where
  "replace_all ic p t s = replace_from ic p t s s 0"

text \<open>\<open>s.match(re)\<close> with the \<open>g\<close> flag: the text of every match (\<open>null\<close> is the empty list).\<close>

function match_from :: "bool \<Rightarrow> item list \<Rightarrow> string \<Rightarrow> string \<Rightarrow> nat \<Rightarrow> string list" where
  "match_from ic p orig s pos =
     (case rmatch ic p s pos [] [] of
        None \<Rightarrow> (case s of [] \<Rightarrow> [] | c # s' \<Rightarrow> match_from ic p orig s' (Suc pos))
      | Some (e, cs) \<Rightarrow>
          slice orig pos e #
          (case s of
             [] \<Rightarrow> []
           | c # s' \<Rightarrow>
               if pos < e then match_from ic p orig (drop (e - Suc pos) s') e
               else match_from ic p orig s' (Suc pos)))"
  by pat_completeness auto
termination
  by (relation "measure (\<lambda>(ic, p, orig, s, pos). length s)") auto

declare match_from.simps [simp del]

definition match_all :: "bool \<Rightarrow> item list \<Rightarrow> string \<Rightarrow> string list" where
  "match_all ic p s = match_from ic p s s 0"

definition endsWith :: "string \<Rightarrow> string \<Rightarrow> bool" where
  "endsWith s x = startsWith (rev s) (rev x)"

section \<open>The repairing JSON parser\<close>

datatype parse_error = AllStrategiesFailed | AllAttemptsFailed nat parse_error | UnknownError

record JSONParseResult =
  success :: bool
  data :: "json option"
  error :: "parse_error option"
  originalLength :: nat
  cleanedLength :: nat

abbreviation not_dq :: cset where
  "not_dq \<equiv> Cls True [(0x22, 0x22)]"

abbreviation ident_start :: cset where
  "ident_start \<equiv> Cls False [(0x61, 0x7A), (0x41, 0x5A), (0x5F, 0x5F), (0x24, 0x24)]"

abbreviation ident_part :: cset where
  "ident_part \<equiv> Cls False [(0x61, 0x7A), (0x41, 0x5A), (0x30, 0x39), (0x5F, 0x5F), (0x24, 0x24)]"

text \<open>\<open>/"([^"]*)\\\",\s*\\\\"([^"]*)"([^"]*):/g\<close>\<close>

definition re_split_pair :: "item list" where
  "re_split_pair =
     lit [dq] @ [GOpen, Star not_dq, GClose] @ lit [bsl, dq, CHR '',''] @ [Star space_cls] @
     lit [bsl, bsl, dq] @ [GOpen, Star not_dq, GClose] @ lit [dq] @
     [GOpen, Star not_dq, GClose] @ lit '':''"

text \<open>\<open>/"([^"]*)\\\":\s*([^,}]+),\s*\\\\"([^"]*)"([^"]*):/g\<close>\<close>

definition re_split_value :: "item list" where
  "re_split_value =
     lit [dq] @ [GOpen, Star not_dq, GClose] @ lit [bsl, dq, CHR '':''] @ [Star space_cls] @
     [GOpen, Plus (Cls True [(0x2C, 0x2C), (0x7D, 0x7D)]), GClose] @ lit '','' @ [Star space_cls] @
     lit [bsl, bsl, dq] @ [GOpen, Star not_dq, GClose] @ lit [dq] @
     [GOpen, Star not_dq, GClose] @ lit '':''"

text \<open>\<open>/"([^"]*)\\\"\s*}/g\<close>\<close>

definition re_escaped_close :: "item list" where
  "re_escaped_close =
     lit [dq] @ [GOpen, Star not_dq, GClose] @ lit [bsl, dq] @ [Star space_cls] @ lit ''}''"

definition fixGeminiAPIIssues :: "string \<Rightarrow> string" where
  "fixGeminiAPIIssues jsonString =
     (let fixed = jsonString;
          fixed = replace_all False (lit [bsl, bsl, dq]) [RText [dq]] fixed;
          fixed = replace_all False (lit [bsl, dq]) [RText [dq]] fixed;
          fixed = replace_all False re_split_pair
                    [RText [dq], RGroup 1, RText ([dq] @ '', '' @ [dq]), RGroup 2, RGroup 3,
                     RText ([dq] @ '':'')] fixed;
          fixed = replace_all False re_split_value
                    [RText [dq], RGroup 1, RText ([dq] @ '': ''), RGroup 2, RText ('', '' @ [dq]),
                     RGroup 3, RGroup 4, RText ([dq] @ '':'')] fixed;
          fixed = replace_all False re_escaped_close
                    [RText [dq], RGroup 1, RText ([dq] @ '' }'')] fixed;
          fixed = replace_first False (lit ''{'' @ [Star (not_ch CHR ''}''), Eol]) [] fixed;
          fixed = replace_first False (lit '','' @ [Star space_cls, Eol]) [] fixed;
          fixed = replace_first False (lit '','' @ [Star space_cls] @ lit '']'') [RText '']''] fixed
      in fixed)"

definition cleanAndRepair :: "string \<Rightarrow> string" where
  "cleanAndRepair jsonString =
     (let cleaned = trim jsonString;
          cleaned = replace_first True ([Bol] @ lit ''```json'' @ [Star space_cls]) [] cleaned;
          cleaned = replace_first True ([Star space_cls] @ lit ''```'' @ [Eol]) [] cleaned;
          cleaned = trim cleaned;
          cleaned = replace_all False
                      [One (Cls False [(0x00, 0x08), (0x0B, 0x0C), (0x0E, 0x1F), (0x7F, 0x7F)])] [] cleaned;
          cleaned = replace_all False [One (Cls False [(0x00, 0x1F), (0x7F, 0x9F)])] [] cleaned;
          cleaned = replace_all False [Plus space_cls] [RText '' ''] cleaned;
          cleaned = trim cleaned;
          cleaned = fixGeminiAPIIssues cleaned;
          cleaned = replace_all False
                      ([GOpen, One (one_of ''{,''), Star space_cls, GClose,
                        GOpen, One ident_start, Star ident_part, GClose, Star space_cls] @ lit '':'')
                      [RGroup 1, RText [dq], RGroup 2, RText ([dq] @ '':'')] cleaned;
          cleaned = replace_all False (lit [sq]) [RText [dq]] cleaned;
          cleaned = replace_all False (lit [dq, dq]) [RText [dq]] cleaned;
          cleaned = replace_all False
                      (lit '','' @ [GOpen, Star space_cls, One (one_of ''}]''), GClose]) [RGroup 1] cleaned;
          cleaned = replace_all False (lit '','' @ [GOpen, Star space_cls, Eol, GClose]) [] cleaned
      in cleaned)"

definition fixArrayStructure :: "string \<Rightarrow> string" where
  "fixArrayStructure arrayString =
     (let fixed = arrayString;
          fixed = replace_first False
                    (lit '','' @ [Star space_cls] @ lit ''{'' @ [Star (not_ch CHR ''}''), Eol]) [] fixed;
          fixed = replace_first False (lit '','' @ [Star space_cls] @ lit '']'') [RText '']''] fixed;
          fixed = (if \<not> startsWith fixed ''['' then ''['' @ fixed else fixed);
          fixed = (if \<not> endsWith fixed '']'' then fixed @ '']'' else fixed)
      in fixed)"

definition fixObjectStructure :: "string \<Rightarrow> string" where
  "fixObjectStructure objectString =
     (let fixed = objectString;
          fixed = replace_first False
                    (lit '','' @ [Star space_cls] @ lit [dq] @ [Star not_dq] @ lit [dq, CHR '':''] @
                     [Star space_cls, Star (Cls True [(0x2C, 0x2C), (0x7D, 0x7D)]), Eol]) [] fixed;
          fixed = replace_first False (lit '','' @ [Star space_cls] @ lit ''}'') [RText ''}''] fixed;
          fixed = (if \<not> startsWith fixed ''{'' then ''{'' @ fixed else fixed);
          fixed = (if \<not> endsWith fixed ''}'' then fixed @ ''}'' else fixed)
      in fixed)"

text \<open>One branch of \<open>extractValidJSON\<close>: the span found by the pattern, as it is when it
  parses, else after the structural fix when that parses, else nothing.\<close>

definition extract_span :: "item list \<Rightarrow> (string \<Rightarrow> string) \<Rightarrow> string \<Rightarrow> string option" where
  "extract_span re fix jsonString =
     (case js_match False re jsonString of
        None \<Rightarrow> None
      | Some (extracted, gs) \<Rightarrow>
          (case JSON_parse extracted of
             Some v \<Rightarrow> Some extracted
           | None \<Rightarrow>
               (case JSON_parse (fix extracted) of
                  Some v \<Rightarrow> Some (fix extracted)
                | None \<Rightarrow> None)))"

definition extractValidJSON :: "string \<Rightarrow> string option" where
  "extractValidJSON jsonString =
     (case extract_span (lit ''['' @ [Star any_ch] @ lit '']'') fixArrayStructure jsonString of
        Some r \<Rightarrow> Some r
      | None \<Rightarrow> extract_span (lit ''{'' @ [Star any_ch] @ lit ''}'') fixObjectStructure jsonString)"

definition reconstructFromFragments :: "string \<Rightarrow> string option" where
  "reconstructFromFragments jsonString = None"

definition parse_ok :: "json \<Rightarrow> nat \<Rightarrow> nat \<Rightarrow> JSONParseResult" where
  "parse_ok d ol cl =
     \<lparr> success = True, data = Some d, error = None, originalLength = ol, cleanedLength = cl \<rparr>"

text \<open>A strategy that yields a candidate text: parse it, or fall through.\<close>

definition try_candidate :: "string option \<Rightarrow> (string \<times> json) option" where
  "try_candidate c =
     (case c of
        None \<Rightarrow> None
      | Some x \<Rightarrow> if x = [] then None else (case JSON_parse x of None \<Rightarrow> None | Some d \<Rightarrow> Some (x, d)))"

definition parse :: "string \<Rightarrow> JSONParseResult" where
  "parse jsonString =
     (let originalLength = length jsonString in
      case JSON_parse jsonString of
        Some d \<Rightarrow> parse_ok d originalLength (length jsonString)
      | None \<Rightarrow>
          (let cleaned = cleanAndRepair jsonString in
           case JSON_parse cleaned of
             Some d \<Rightarrow> parse_ok d originalLength (length cleaned)
           | None \<Rightarrow>
               (case try_candidate (extractValidJSON cleaned) of
                  Some (extracted, d) \<Rightarrow> parse_ok d originalLength (length extracted)
                | None \<Rightarrow>
                    (case try_candidate (reconstructFromFragments cleaned) of
                       Some (reconstructed, d) \<Rightarrow> parse_ok d originalLength (length reconstructed)
                     | None \<Rightarrow>
                         \<lparr> success = False, data = None, error = Some AllStrategiesFailed,
                           originalLength = originalLength, cleanedLength = length cleaned \<rparr>))))"

text \<open>The loop of \<open>parseWithRetry\<close>: attempts \<open>attempt, ..., maxRetries\<close> on the same text.\<close>

fun retry_loop :: "nat \<Rightarrow> string \<Rightarrow> parse_error \<Rightarrow> JSONParseResult + parse_error" where
  "retry_loop 0 jsonString lastError = Inr lastError"
| "retry_loop (Suc n) jsonString lastError =
     (let result = parse jsonString in
      if success result then Inl result
      else retry_loop n jsonString (case error result of Some e \<Rightarrow> e | None \<Rightarrow> UnknownError))"

definition parseWithRetry :: "string \<Rightarrow> nat \<Rightarrow> JSONParseResult" where
  "parseWithRetry jsonString maxRetries =
     (case retry_loop maxRetries jsonString UnknownError of
        Inl result \<Rightarrow> result
      | Inr lastError \<Rightarrow>
          \<lparr> success = False, data = None, error = Some (AllAttemptsFailed maxRetries lastError),
            originalLength = length jsonString, cleanedLength = 0 \<rparr>)"

text \<open>\<open>parseJSONWithRetry\<close>: the data of a success, else \<open>null\<close>.\<close>

definition parseJSONWithRetry :: "string \<Rightarrow> nat \<Rightarrow> json" where
  "parseJSONWithRetry jsonString maxRetries =
     (let result = parseWithRetry jsonString maxRetries in
      if success result then (case data result of Some d \<Rightarrow> d | None \<Rightarrow> JNull) else JNull)"

section \<open>The categorizer\<close>

text \<open>
  A categorized expense is an object \<open>{...x, category: c}\<close>: the properties of \<open>x\<close>, which is
  either an expense of the input or an element of the parsed response, and the label \<open>c\<close>.
\<close>

datatype origin = FromInput ParsedExpense | FromResponse json

record CategorizedExpense =
  origin :: origin
  label :: string

text \<open>Truthiness of a parsed value; a number is falsy when it is zero.\<close>

fun truthy :: "json \<Rightarrow> bool" where
  "truthy JNull = False"
| "truthy (JBool b) = b"
| "truthy (JNum n) = (parseFloat n \<noteq> Fin 0)"
| "truthy (JStr s) = (s \<noteq> [])"
| "truthy (JArr xs) = True"
| "truthy (JObj kvs) = True"

text \<open>\<open>expense.category\<close>: a \<open>TypeError\<close> on \<open>null\<close>, the property of an object, and
  \<open>undefined\<close> on every other value.\<close>

fun get_category :: "json \<Rightarrow> error + json option" where
  "get_category JNull = Inl TypeError"
| "get_category (JObj kvs) = Inr (map_of kvs ''category'')"
| "get_category x = Inr None"

text \<open>\<open>v || 'Unknown'\<close>\<close>

definition or_unknown :: "json option \<Rightarrow> json" where
  "or_unknown v = (case v of None \<Rightarrow> JStr ''Unknown'' | Some x \<Rightarrow> if truthy x then x else JStr ''Unknown'')"

text \<open>\<open>EXPENSE_CATEGORIES.includes(category)\<close>: only a string can be equal to a member.\<close>

fun known_category :: "json \<Rightarrow> string option" where
  "known_category (JStr s) = (if s \<in> set EXPENSE_CATEGORIES then Some s else None)"
| "known_category x = None"

definition categorize_element :: "json \<Rightarrow> error + CategorizedExpense" where
  "categorize_element expense =
     (case get_category expense of
        Inl e \<Rightarrow> Inl e
      | Inr v \<Rightarrow>
          (case known_category (or_unknown v) of
             None \<Rightarrow> Inr \<lparr> origin = FromResponse expense, label = ''Unknown'' \<rparr>
           | Some c \<Rightarrow> Inr \<lparr> origin = FromResponse expense, label = c \<rparr>))"

text \<open>\<open>parsed.map(...)\<close>: the first element that throws ends the whole map.\<close>

fun categorize_elements :: "json list \<Rightarrow> error + CategorizedExpense list" where
  "categorize_elements [] = Inr []"
| "categorize_elements (x # xs) =
     (case categorize_element x of
        Inl e \<Rightarrow> Inl e
      | Inr r \<Rightarrow> (case categorize_elements xs of Inl e \<Rightarrow> Inl e | Inr rs \<Rightarrow> Inr (r # rs)))"

text \<open>\<open>/"category":\s*"([^"]+)"/\<close> and \<open>/"([^"]+)"/\<close>\<close>

definition re_category :: "item list" where
  "re_category =
     lit ([dq] @ ''category'' @ [dq] @ '':'') @ [Star space_cls] @ lit [dq] @
     [GOpen, Plus not_dq, GClose] @ lit [dq]"

definition re_quoted :: "item list" where
  "re_quoted = lit [dq] @ [GOpen, Plus not_dq, GClose] @ lit [dq]"

text \<open>\<open>originalExpenses.map((expense, index) => ({...expense, category: cs[index] || 'Unknown'}))\<close>\<close>

fun label_by_index :: "ParsedExpense list \<Rightarrow> string list \<Rightarrow> CategorizedExpense list" where
  "label_by_index [] cs = []"
| "label_by_index (e # es) [] =
     \<lparr> origin = FromInput e, label = ''Unknown'' \<rparr> # label_by_index es []"
| "label_by_index (e # es) (c # cs) =
     \<lparr> origin = FromInput e, label = (if c = [] then ''Unknown'' else c) \<rparr> # label_by_index es cs"

definition all_digits :: "string \<Rightarrow> bool" where
  "all_digits s = (s \<noteq> [] \<and> list_all is_digit s)"

text \<open>\<open>/^\d+\.\d+$/\<close>\<close>

definition decimal_number :: "string \<Rightarrow> bool" where
  "decimal_number s =
     (all_digits (takeWhile is_digit s) \<and>
      (case dropWhile is_digit s of [] \<Rightarrow> False | c # r \<Rightarrow> c = CHR ''.'' \<and> all_digits r))"

definition potential_category :: "string \<Rightarrow> bool" where
  "potential_category str =
     (2 < length str \<and> length str < 50 \<and>
      \<not> str_includes str ''{'' \<and> \<not> str_includes str ''}'' \<and>
      \<not> str_includes str ''['' \<and> \<not> str_includes str '']'' \<and>
      \<not> str_includes str '':'' \<and> \<not> str_includes str '','' \<and>
      \<not> all_digits str \<and> \<not> decimal_number str)"

definition extractCategoriesWithRegex :: "string \<Rightarrow> ParsedExpense list \<Rightarrow> CategorizedExpense list" where
  "extractCategoriesWithRegex response originalExpenses =
     (let categoryMatches = match_all False re_category response in
      if categoryMatches \<noteq> [] then
        label_by_index originalExpenses
          (map (\<lambda>m. case group1 (js_match False re_category m) of
                        Some g \<Rightarrow> g
                      | None \<Rightarrow> ''Unknown'') categoryMatches)
      else
        (let allQuotedStrings = match_all False re_quoted response;
             potentialCategories =
               filter potential_category (map (filter (\<lambda>c. c \<noteq> dq)) allQuotedStrings);
             validCategories = filter (\<lambda>c. c \<in> set EXPENSE_CATEGORIES) potentialCategories in
         if allQuotedStrings \<noteq> [] \<and> validCategories \<noteq> []
         then label_by_index originalExpenses validCategories
         else []))"

definition parseBatchResponse :: "string \<Rightarrow> ParsedExpense list \<Rightarrow> error + CategorizedExpense list" where
  "parseBatchResponse response originalExpenses =
     (let parsed = parseJSONWithRetry response 3 in
      if \<not> truthy parsed then Inr (extractCategoriesWithRegex response originalExpenses)
      else
        (case parsed of
           JArr xs \<Rightarrow> categorize_elements xs
         | _ \<Rightarrow> Inr (extractCategoriesWithRegex response originalExpenses)))"

text \<open>
  The text-generation service is an oracle: call number \<open>i\<close> with a chunk of expenses fails
  or returns a text. \<open>callGeminiAPI\<close>, which retries the request inside, is one call; it
  throws on a blank text.
\<close>

type_synonym service = "nat \<Rightarrow> ParsedExpense list \<Rightarrow> error + string"

definition callGeminiAPI :: "service \<Rightarrow> nat \<Rightarrow> ParsedExpense list \<Rightarrow> error + string" where
  "callGeminiAPI gemini i chunk =
     (case gemini i chunk of
        Inl e \<Rightarrow> Inl e
      | Inr responseText \<Rightarrow> if trim responseText = [] then Inl (HttpError 200) else Inr responseText)"

definition categorize_chunk :: "service \<Rightarrow> nat \<Rightarrow> ParsedExpense list \<Rightarrow> error + CategorizedExpense list" where
  "categorize_chunk gemini i chunk =
     (case callGeminiAPI gemini i chunk of
        Inl e \<Rightarrow> Inl e
      | Inr response \<Rightarrow> parseBatchResponse response chunk)"

definition maxBatchSize :: nat where
  "maxBatchSize = 10"

text \<open>The loop \<open>for (i = 0; i < expenses.length; i += maxBatchSize)\<close> over what is left of
  the input: its outcome and the chunks for which the service was called, in order.\<close>

function chunk_loop ::
    "service \<Rightarrow> nat \<Rightarrow> ParsedExpense list \<Rightarrow> (error + CategorizedExpense list) \<times> ParsedExpense list list" where
  "chunk_loop gemini i rest =
     (if rest = [] then (Inr [], [])
      else
        (case categorize_chunk gemini i (take maxBatchSize rest) of
           Inl e \<Rightarrow> (Inl e, [take maxBatchSize rest])
         | Inr chunkResult \<Rightarrow>
             (case chunk_loop gemini (Suc i) (drop maxBatchSize rest) of
                (Inl e, calls) \<Rightarrow> (Inl e, take maxBatchSize rest # calls)
              | (Inr results, calls) \<Rightarrow> (Inr (chunkResult @ results), take maxBatchSize rest # calls))))"
  by pat_completeness auto
termination
  by (relation "measure (\<lambda>(gemini, i, rest). length rest)") (auto simp: maxBatchSize_def)

declare chunk_loop.simps [simp del]

definition all_unknown :: "ParsedExpense list \<Rightarrow> CategorizedExpense list" where
  "all_unknown expenses = map (\<lambda>expense. \<lparr> origin = FromInput expense, label = ''Unknown'' \<rparr>) expenses"

text \<open>\<open>batchCategorizeExpenses\<close> with the chunks it sent to the service.\<close>

definition batchCategorizeExpenses_calls ::
    "service \<Rightarrow> ParsedExpense list \<Rightarrow> CategorizedExpense list \<times> ParsedExpense list list" where
  "batchCategorizeExpenses_calls gemini expenses =
     (case (if maxBatchSize < length expenses then chunk_loop gemini 0 expenses
            else (categorize_chunk gemini 0 expenses, [expenses])) of
        (Inr results, calls) \<Rightarrow> (results, calls)
      | (Inl e, calls) \<Rightarrow> (all_unknown expenses, calls))"

definition batchCategorizeExpenses :: "service \<Rightarrow> ParsedExpense list \<Rightarrow> CategorizedExpense list" where
  "batchCategorizeExpenses gemini expenses = fst (batchCategorizeExpenses_calls gemini expenses)"

section \<open>The storage collaborator\<close>

text \<open>
  The server side of the three endpoints the import uses, over the table of transactions.
  \<open>session\<close> is the user of the request's session, if any. The database is taken to answer
  every query; a request fails by its status only.
\<close>

record Transaction =
  t_user :: string
  t_date :: instant
  t_merchant :: string
  t_amount :: jsnum
  t_category :: string
  t_location :: string
  t_currency :: string

record WireExpense =
  w_amount :: jsnum
  w_category :: string
  w_location :: string
  w_currency :: string
  w_merchant :: string
  w_date :: instant

text \<open>\<open>JSON.stringify\<close> writes NaN and the infinities as \<open>null\<close>, which \<open>parseFloat\<close> on the
  server reads as NaN.\<close>

fun wire_amount :: "jsnum \<Rightarrow> jsnum" where
  "wire_amount (Fin q) = Fin q"
| "wire_amount x = NaN"

definition validateAmount :: "jsnum \<Rightarrow> bool" where
  "validateAmount numAmount = (\<not> isNaN numAmount \<and> \<not> le_zero numAmount)"

definition validateRequired :: "string \<Rightarrow> bool" where
  "validateRequired v = (v \<noteq> [] \<and> trim v \<noteq> [])"

text \<open>\<open>/^[A-Z]{3}$/\<close>\<close>

definition validateCurrency :: "string \<Rightarrow> bool" where
  "validateCurrency c = (length c = 3 \<and> list_all (in_range 0x41 0x5A) c)"

definition validateExpense :: "jsnum \<Rightarrow> string \<Rightarrow> string \<Rightarrow> string \<Rightarrow> string \<Rightarrow> bool" where
  "validateExpense amt cat loc mer cur =
     (validateAmount amt \<and> validateRequired cat \<and> validateRequired loc \<and>
      validateRequired mer \<and> validateCurrency cur)"

text \<open>\<open>v || d\<close> on a string.\<close>

definition str_or :: "string \<Rightarrow> string \<Rightarrow> string" where
  "str_or v d = (if v = [] then d else v)"

definition batch_valid :: "WireExpense \<Rightarrow> bool" where
  "batch_valid w =
     validateExpense (wire_amount (w_amount w)) (str_or (w_category w) ''Other'')
       (str_or (w_location w) ''Costa Rica'') (w_merchant w) (str_or (w_currency w) ''CRC'')"

definition batch_row :: "string \<Rightarrow> WireExpense \<Rightarrow> Transaction" where
  "batch_row userId w =
     \<lparr> t_user = userId, t_date = w_date w, t_merchant = w_merchant w, t_amount = w_amount w,
       t_category = str_or (w_category w) ''Other'',
       t_location = str_or (w_location w) ''Costa Rica'',
       t_currency = str_or (w_currency w) ''CRC'' \<rparr>"

text \<open>\<open>POST /api/expenses/batch\<close>: the status and the table afterwards.\<close>

definition api_batch :: "string option \<Rightarrow> Transaction list \<Rightarrow> WireExpense list \<Rightarrow> nat \<times> Transaction list" where
  "api_batch session db ws =
     (case session of
        None \<Rightarrow> (401, db)
      | Some userId \<Rightarrow>
          if list_ex (\<lambda>w. \<not> batch_valid w) ws then (400, db)
          else (200, db @ map (batch_row userId) ws))"

definition single_valid :: "WireExpense \<Rightarrow> bool" where
  "single_valid w =
     validateExpense (wire_amount (w_amount w)) (w_category w) (str_or (w_location w) ''Unknown'')
       (str_or (w_merchant w) ''Unknown'') (w_currency w)"

definition single_row :: "string \<Rightarrow> WireExpense \<Rightarrow> Transaction" where
  "single_row userId w =
     \<lparr> t_user = userId, t_date = w_date w, t_merchant = str_or (w_merchant w) ''Unknown'',
       t_amount = w_amount w, t_category = w_category w,
       t_location = str_or (w_location w) ''Unknown'', t_currency = w_currency w \<rparr>"

text \<open>\<open>POST /api/expenses\<close>\<close>

definition api_expenses_post :: "string option \<Rightarrow> Transaction list \<Rightarrow> WireExpense \<Rightarrow> nat \<times> Transaction list" where
  "api_expenses_post session db w =
     (case session of
        None \<Rightarrow> (401, db)
      | Some userId \<Rightarrow> if \<not> single_valid w then (400, db) else (201, db @ [single_row userId w]))"

definition in_window :: "string \<Rightarrow> instant \<Rightarrow> instant \<Rightarrow> Transaction \<Rightarrow> bool" where
  "in_window userId start end t = (t_user t = userId \<and> start \<le> t_date t \<and> t_date t \<le> end)"

text \<open>\<open>DELETE /api/expenses/delete-by-range\<close>: the status, the number deleted and the
  table afterwards.\<close>

definition api_delete_by_range ::
    "string option \<Rightarrow> Transaction list \<Rightarrow> instant \<Rightarrow> instant \<Rightarrow> nat \<times> nat \<times> Transaction list" where
  "api_delete_by_range session db start end =
     (case session of
        None \<Rightarrow> (401, 0, db)
      | Some userId \<Rightarrow>
          (200, length (filter (in_window userId start end) db),
           filter (\<lambda>t. \<not> in_window userId start end t) db))"

section \<open>Dates of the deletion window\<close>

text \<open>
  \<open>new Date(year, monthIndex, day, ...)\<close> is a local time; \<open>tz\<close> is the offset of local time
  from UTC in milliseconds. \<open>d.toISOString().split('T')[0]\<close> is the UTC date of \<open>d\<close>, and
  the server reads that text back as the midnight that starts the date.
\<close>

definition msPerDay :: int where
  "msPerDay = 86400000"

definition days_from_civil :: "int \<Rightarrow> int \<Rightarrow> int \<Rightarrow> int" where
  "days_from_civil y m d =
     (let y' = (if m \<le> 2 then y - 1 else y);
          era = y' div 400;
          yoe = y' - era * 400;
          mp = (m + 9) mod 12;
          doy = (153 * mp + 2) div 5 + d - 1;
          doe = yoe * 365 + yoe div 4 - yoe div 100 + doy
      in era * 146097 + doe - 719468)"

definition local_date :: "int \<Rightarrow> int \<Rightarrow> int \<Rightarrow> int \<Rightarrow> int \<Rightarrow> instant" where
  "local_date tz year monthIndex day ms =
     (let y = (if 0 \<le> year \<and> year \<le> 99 then 1900 + year else year);
          ym = y + monthIndex div 12;
          mn = monthIndex mod 12
      in (days_from_civil ym (mn + 1) 1 + (day - 1)) * msPerDay + ms - tz)"

definition valid_time :: "instant \<Rightarrow> bool" where
  "valid_time t = (\<bar>t\<bar> \<le> 8640000000000000)"

definition iso_date_part :: "instant \<Rightarrow> instant" where
  "iso_date_part t = t - t mod msPerDay"

definition window_start :: "int \<Rightarrow> int \<Rightarrow> int \<Rightarrow> instant" where
  "window_start tz year month = local_date tz year (month - 1) 1 0"

definition window_end :: "int \<Rightarrow> int \<Rightarrow> int \<Rightarrow> instant" where
  "window_end tz year month = local_date tz year month 0 86399999"

section \<open>The import orchestrator\<close>

text \<open>
  The world of one import: the mailbox (what \<open>getEmailsFromSender\<close> returns or throws), the
  categorizer, the engine's date parser, clock and time zone, and the user of the session
  as the endpoints read it. The two storing endpoints read the session with the shared
  options, the deleting endpoint with empty options, so the user each sees is a field of
  its own. \<open>batchCategorizeExpenses\<close> is declared to map expenses to expenses and catches
  every error, so here it is any function \<open>e_categorize\<close> of that type: the records it
  returns have the fields of an expense.
\<close>

record env =
  e_getEmails :: "string \<Rightarrow> int \<Rightarrow> int \<Rightarrow> error + GmailMessage list"
  e_categorize :: "ParsedExpense list \<Rightarrow> ParsedExpense list"
  e_dateParse :: "string \<Rightarrow> instant option"
  e_now :: instant
  e_tz :: int
  e_session :: "string option"
  e_delete_session :: "string option"

record TransactionInfo =
  Commerce :: string
  Date :: instant
  Amount :: jsnum
  Currency :: string
  Category :: string
  Location :: string

record ImportSummary =
  processed :: nat
  stored :: nat
  deleted :: nat
  errors :: nat
  transactions :: "TransactionInfo list"

definition extractTransactionInfo :: "ParsedExpense \<Rightarrow> TransactionInfo" where
  "extractTransactionInfo expense =
     \<lparr> Commerce = merchant expense, Date = date expense, Amount = amount expense,
       Currency = or_default (currency expense) ''CRC'',
       Category = or_default (category expense) ''Other'',
       Location = or_default (location expense) ''Costa Rica'' \<rparr>"

text \<open>\<open>deleteExistingTransactions\<close>: the number deleted, or the error it throws.\<close>

definition deleteExistingTransactions ::
    "string option \<Rightarrow> Transaction list \<Rightarrow> instant \<Rightarrow> instant \<Rightarrow> error + (nat \<times> Transaction list)" where
  "deleteExistingTransactions session db startDate endDate =
     (case api_delete_by_range session db startDate endDate of
        (status, n, db') \<Rightarrow> if status = 200 then Inr (n, db') else Inl (HttpError status))"

text \<open>Step 0. \<open>toISOString\<close> throws on an instant out of range; that and a failed request
  leave \<open>deleted = 0\<close>.\<close>

definition delete_step :: "env \<Rightarrow> Transaction list \<Rightarrow> int \<Rightarrow> int \<Rightarrow> nat \<times> Transaction list" where
  "delete_step w db year month =
     (let startDate = window_start (e_tz w) year month;
          endDate = window_end (e_tz w) year month in
      if \<not> valid_time startDate \<or> \<not> valid_time endDate then (0, db)
      else
        (case deleteExistingTransactions (e_delete_session w) db (iso_date_part startDate) (iso_date_part endDate) of
           Inr (n, db') \<Rightarrow> (n, db')
         | Inl deleteError \<Rightarrow> (0, db)))"

text \<open>Step 1. \<open>parseExpenseEmailWithoutAI\<close> catches every error, so each message counts as
  processed and the handler that counts an error is never entered.\<close>

fun extract_loop :: "env \<Rightarrow> GmailMessage list \<Rightarrow> nat \<times> ParsedExpense list" where
  "extract_loop w [] = (0, [])"
| "extract_loop w (message # ms) =
     (case extract_loop w ms of
        (n, raw) \<Rightarrow>
          (case parseExpenseEmailWithoutAI (e_dateParse w) (e_now w) message of
             Some parsedExpense \<Rightarrow> (Suc n, parsedExpense # raw)
           | None \<Rightarrow> (Suc n, raw)))"

definition cleanExpense :: "ParsedExpense \<Rightarrow> WireExpense" where
  "cleanExpense expense =
     \<lparr> w_amount = amount expense,
       w_category = trim (or_default (category expense) ''Other''),
       w_location = trim (or_default (location expense) ''Costa Rica''),
       w_currency = trim (or_default (currency expense) ''CRC''),
       w_merchant = trim (merchant expense),
       w_date = date expense \<rparr>"

text \<open>\<open>storeParsedExpensesBatch\<close>: expenses with an invalid amount are skipped; nothing is
  sent when none is left.\<close>

definition storeParsedExpensesBatch ::
    "string option \<Rightarrow> Transaction list \<Rightarrow> ParsedExpense list \<Rightarrow> error + Transaction list" where
  "storeParsedExpensesBatch session db expenses =
     (let transactionData =
            map cleanExpense (filter (\<lambda>e. \<not> (isNaN (amount e) \<or> le_zero (amount e))) expenses) in
      if transactionData = [] then Inr db
      else
        (case api_batch session db transactionData of
           (status, db') \<Rightarrow> if status = 200 then Inr db' else Inl (HttpError status)))"

definition storeParsedExpense ::
    "string option \<Rightarrow> Transaction list \<Rightarrow> ParsedExpense \<Rightarrow> error + Transaction list" where
  "storeParsedExpense session db expense =
     (case api_expenses_post session db (cleanExpense expense) of
        (status, db') \<Rightarrow> if 200 \<le> status \<and> status < 300 then Inr db' else Inl (HttpError status))"

text \<open>The fallback loop: one request for each expense.\<close>

fun store_each :: "string option \<Rightarrow> Transaction list \<Rightarrow> ParsedExpense list \<Rightarrow> nat \<times> nat \<times> Transaction list" where
  "store_each session db [] = (0, 0, db)"
| "store_each session db (expense # es) =
     (case storeParsedExpense session db expense of
        Inr db' \<Rightarrow> (case store_each session db' es of (st, er, db'') \<Rightarrow> (Suc st, er, db''))
      | Inl individualError \<Rightarrow> (case store_each session db es of (st, er, db'') \<Rightarrow> (st, Suc er, db'')))"

text \<open>Step 3: the number stored, the number of errors and the table afterwards.\<close>

definition store_step :: "string option \<Rightarrow> Transaction list \<Rightarrow> ParsedExpense list \<Rightarrow> nat \<times> nat \<times> Transaction list" where
  "store_step session db categorizedExpenses =
     (if categorizedExpenses = [] then (0, 0, db)
      else
        (case storeParsedExpensesBatch session db categorizedExpenses of
           Inr db' \<Rightarrow> (length categorizedExpenses, 0, db')
         | Inl e \<Rightarrow>
             (case store_each session db categorizedExpenses of
                (st, er, db') \<Rightarrow> (st, Suc er, db'))))"

definition processEmailsFromSender ::
    "env \<Rightarrow> Transaction list \<Rightarrow> string \<Rightarrow> int \<Rightarrow> int \<Rightarrow> error + (ImportSummary \<times> Transaction list)" where
  "processEmailsFromSender w db senderEmail month year =
     (case e_getEmails w senderEmail month year of
        Inl e \<Rightarrow> Inl e
      | Inr messages \<Rightarrow>
          (case delete_step w db year month of
             (del, db1) \<Rightarrow>
               (case extract_loop w messages of
                  (proc, rawExpenses) \<Rightarrow>
                    (let categorizedExpenses =
                           (if rawExpenses \<noteq> [] then e_categorize w rawExpenses else []) in
                     case store_step (e_session w) db1 categorizedExpenses of
                       (st, er, db2) \<Rightarrow>
                         Inr (\<lparr> processed = proc, stored = st, deleted = del, errors = er,
                                transactions = map extractTransactionInfo categorizedExpenses \<rparr>,
                              db2)))))"

section \<open>What a body states, and sample inputs\<close>

text \<open>The merchant is missing when its pattern finds nothing or only white space. The
  amount token is the second word of the \<open>Monto\<close> field.\<close>

definition merchant_missing :: "string \<Rightarrow> bool" where
  "merchant_missing text = (case extract_commerce text of None \<Rightarrow> True | Some c \<Rightarrow> c = [])"

definition amount_token :: "string \<Rightarrow> string option" where
  "amount_token text =
     (case extract_montoMatch text of
        None \<Rightarrow> None
      | Some [] \<Rightarrow> None
      | Some [cur] \<Rightarrow> None
      | Some (cur # a # rest) \<Rightarrow> Some a)"

text \<open>The date the body states, when the engine can read it.\<close>

definition body_date :: "(string \<Rightarrow> instant option) \<Rightarrow> string \<Rightarrow> instant option" where
  "body_date dateParse text = (case extract_dateMatch text of None \<Rightarrow> None | Some d \<Rightarrow> dateParse d)"

definition no_date :: "string \<Rightarrow> instant option" where
  "no_date s = None"

text \<open>A date parser that reads two texts: a body date (5 October 2025) and a header date
  (31 October 2025, noon UTC).\<close>

definition sample_dateParse :: "string \<Rightarrow> instant option" where
  "sample_dateParse s =
     (if s = ''Oct 5, 2025'' then Some 1759622400000
      else if s = ''Fri, 31 Oct 2025 12:00:00 +0000'' then Some 1761912000000
      else None)"

definition body_uber :: string where
  "body_uber = ''<p>Comercio:</p></td><td><p>Uber</p><p>Monto:</p></td><td><p>USD 12.50</p>''"

definition body_zero :: string where
  "body_zero = ''<p>Comercio:</p></td><td><p>Uber</p><p>Monto:</p></td><td><p>USD 0</p>''"

definition body_negative :: string where
  "body_negative = ''<p>Comercio:</p></td><td><p>Uber</p><p>Monto:</p></td><td><p>USD -3</p>''"

definition body_infinity :: string where
  "body_infinity = ''<p>Comercio:</p></td><td><p>Uber</p><p>Monto:</p></td><td><p>USD Infinity</p>''"

definition body_dated :: string where
  "body_dated =
     ''<p>Comercio:</p></td><td><p>Uber</p><p>Fecha:</p></td><td><p>Oct 5, 2025</p><p>Monto:</p></td><td><p>USD 7</p>''"

definition garbage :: string where
  "garbage = [CHR 0x00, CHR 0xFF, CHR 0x13, CHR 0x80]"

text \<open>Malformed texts of the four kinds the repair is written for.\<close>

definition truncated_array :: string where
  \<open>truncated_array = ''[{"a":1}, {"b":2}, {"c":''\<close>

definition truncated_after_one :: string where
  \<open>truncated_after_one = ''[{"a":1}, {"c":''\<close>

definition trailing_comma :: string where
  \<open>trailing_comma = ''[{"a":1},]''\<close>

definition bareword_keys :: string where
  \<open>bareword_keys = ''[{a: 1, b_c: "x"}]''\<close>

definition doubled_escapes :: string where
  \<open>doubled_escapes = ''[{"m": "UBER'' @ [bsl, dq] @ '', '' @ [bsl, bsl, dq] @ ''c": "T"}]''\<close>

section \<open>Chunks, as the specification words them\<close>






text \<open>Services for the examples: one that is down, and ones that always give one text.\<close>

definition service_down :: service where
  "service_down i chunk = Inl NetworkError"

definition service_empty_array :: service where
  "service_empty_array i chunk = Inr ''[]''"

definition reply_bananas_json :: string where
  \<open>reply_bananas_json = ''[{"category":"Bananas"}]''\<close>

definition reply_bananas_text :: string where
  \<open>reply_bananas_text = ''{"category": "Bananas"''\<close>

definition service_bananas_json :: service where
  "service_bananas_json i chunk = Inr reply_bananas_json"

definition service_bananas_text :: service where
  "service_bananas_text i chunk = Inr reply_bananas_text"


definition expense_uber :: ParsedExpense where
  "expense_uber =
     \<lparr> amount = Fin (25 / 2), merchant = ''Uber'', date = 1761912000000, category = Some ''Other'',
       location = Some ''Costa Rica'', currency = Some ''USD'' \<rparr>"

definition expense_shell :: ParsedExpense where
  "expense_shell =
     \<lparr> amount = Fin 40, merchant = ''Shell'', date = 1761912000000, category = Some ''Other'',
       location = Some ''Costa Rica'', currency = Some ''USD'' \<rparr>"






section \<open>A scenario of import\<close>

text \<open>
  Two messages from \<open>noreply@bank.com\<close> dated 31 October 2025, noon UTC: one states the
  merchant Uber and the amount USD 12.50, the other has a body without the fields. The
  user is signed in, local time is UTC, and the categorizer labels every record
  Transportation.
\<close>

definition message_uber :: GmailMessage where
  "message_uber =
     \<lparr> msg_id = ''m1'',
       headers = [(''From'', ''noreply@bank.com''), (''Date'', ''Fri, 31 Oct 2025 12:00:00 +0000'')],
       body_data = Some ''PHA-Q29tZXJjaW86PC9wPjwvdGQ-PHRkPjxwPlViZXI8L3A-PHA-TW9udG86PC9wPjwvdGQ-PHRkPjxwPlVTRCAxMi41MDwvcD4'',
       parts = None \<rparr>"

definition message_malformed :: GmailMessage where
  "message_malformed =
     \<lparr> msg_id = ''m2'',
       headers = [(''From'', ''noreply@bank.com''), (''Date'', ''Fri, 31 Oct 2025 12:00:00 +0000'')],
       body_data = Some ''PHA-b29wczwvcD4'',
       parts = None \<rparr>"

definition scenario_mailbox :: "string \<Rightarrow> int \<Rightarrow> int \<Rightarrow> error + GmailMessage list" where
  "scenario_mailbox senderEmail month year = Inr [message_uber, message_malformed]"

definition relabel :: "string \<Rightarrow> ParsedExpense list \<Rightarrow> ParsedExpense list" where
  "relabel c expenses = map (\<lambda>e. e\<lparr> category := Some c \<rparr>) expenses"

definition scenario_env :: env where
  "scenario_env =
     \<lparr> e_getEmails = scenario_mailbox, e_categorize = relabel ''Transportation'',
       e_dateParse = sample_dateParse, e_now = 1762000000000, e_tz = 0,
       e_session = Some ''user-1'', e_delete_session = Some ''user-1'' \<rparr>"



text \<open>The same import with one message, whose body states the date 5 October 2025.\<close>

definition message_dated :: GmailMessage where
  "message_dated =
     \<lparr> msg_id = ''m3'',
       headers = [(''From'', ''noreply@bank.com''), (''Date'', ''Fri, 31 Oct 2025 12:00:00 +0000'')],
       body_data = Some ''PHA-Q29tZXJjaW86PC9wPjwvdGQ-PHRkPjxwPlViZXI8L3A-PHA-RmVjaGE6PC9wPjwvdGQ-PHRkPjxwPk9jdCA1LCAyMDI1PC9wPjxwPk1vbnRvOjwvcD48L3RkPjx0ZD48cD5VU0QgNzwvcD4'',
       parts = None \<rparr>"

definition dated_mailbox :: "string \<Rightarrow> int \<Rightarrow> int \<Rightarrow> error + GmailMessage list" where
  "dated_mailbox senderEmail month year = Inr [message_dated]"

definition dated_env :: env where
  "dated_env = scenario_env \<lparr> e_getEmails := dated_mailbox \<rparr>"

definition row_dated :: Transaction where
  "row_dated =
     \<lparr> t_user = ''user-1'', t_date = 1759622400000, t_merchant = ''Uber'', t_amount = Fin 7,
       t_category = ''Transportation'', t_location = ''Costa Rica'', t_currency = ''USD'' \<rparr>"

definition info_dated :: TransactionInfo where
  "info_dated =
     \<lparr> Commerce = ''Uber'', Date = 1759622400000, Amount = Fin 7, Currency = ''USD'',
       Category = ''Transportation'', Location = ''Costa Rica'' \<rparr>"


definition row_uber :: Transaction where
  "row_uber =
     \<lparr> t_user = ''user-1'', t_date = 1761912000000, t_merchant = ''Uber'', t_amount = Fin (25 / 2),
       t_category = ''Transportation'', t_location = ''Costa Rica'', t_currency = ''USD'' \<rparr>"

definition info_uber :: TransactionInfo where
  "info_uber =
     \<lparr> Commerce = ''Uber'', Date = 1761912000000, Amount = Fin (25 / 2), Currency = ''USD'',
       Category = ''Transportation'', Location = ''Costa Rica'' \<rparr>"

section \<open>Properties of the keyword classifier\<close>

lemma determineCategory_cases:
  "determineCategory m = ''Groceries'' \<or> determineCategory m = ''Transportation'' \<or>
   determineCategory m = ''Food & Dining'' \<or> determineCategory m = ''Shopping'' \<or>
   determineCategory m = ''Utilities'' \<or> determineCategory m = ''Healthcare'' \<or>
   determineCategory m = ''Entertainment'' \<or> determineCategory m = ''Other''"
  unfolding determineCategory_def Let_def by presburger

lemma fallback_labels_reached:
  "determineCategory ''Fresh Market'' = ''Groceries''"
  "determineCategory ''SHELL'' = ''Transportation''"
  "determineCategory ''Pizza Hut'' = ''Food & Dining''"
  "determineCategory ''Amazon'' = ''Shopping''"
  "determineCategory ''Water Co'' = ''Utilities''"
  "determineCategory ''City Hospital'' = ''Healthcare''"
  "determineCategory ''Netflix'' = ''Entertainment''"
  "determineCategory ''Uber'' = ''Other''"
  by code_simp+

text \<open>
  Claim C10. The keyword classifier is a total function of the merchant string; its values are
  exactly the eight labels Groceries, Transportation, Food & Dining, Shopping, Utilities,
  Healthcare, Entertainment and Other (each is reached, and nothing else is), and all eight
  belong to the closed category set.
\<close>

theorem determineCategory_eight_labels:
  "range determineCategory = set fallback_labels \<and>
   set fallback_labels \<inter> set EXPENSE_CATEGORIES = set fallback_labels \<and>
   length (remdups fallback_labels) = 8"
proof -
  have sub: "range determineCategory \<subseteq> set fallback_labels"
  proof
    fix y assume "y \<in> range determineCategory"
    then obtain m where y: "y = determineCategory m" by blast
    show "y \<in> set fallback_labels"
      using determineCategory_cases [of m] unfolding y fallback_labels_def by auto
  qed
  have sup: "set fallback_labels \<subseteq> range determineCategory"
    unfolding fallback_labels_def
    using fallback_labels_reached by (auto simp: image_iff) metis+
  have mem: "set fallback_labels \<inter> set EXPENSE_CATEGORIES = set fallback_labels"
    unfolding fallback_labels_def EXPENSE_CATEGORIES_def by auto
  have card: "length (remdups fallback_labels) = 8"
    unfolding fallback_labels_def by simp
  from sub sup mem card show ?thesis by blast
qed

section \<open>Field extraction\<close>

lemma parse_text_None_iff:
  "parseExpenseFromTextWithoutAI dp now txt frm hdr = None \<longleftrightarrow>
     merchant_missing txt \<or> amount_token txt = None \<or>
     (\<exists>a. amount_token txt = Some a \<and> (isNaN (parseFloat a) \<or> le_zero (parseFloat a)))"
  unfolding parseExpenseFromTextWithoutAI_def Let_def merchant_missing_def amount_token_def
  by (auto split: option.splits list.splits)

lemma parse_email_text:
  "htmlContent_of message = Inr txt \<Longrightarrow>
   parseExpenseEmailWithoutAI dp now message =
     parseExpenseFromTextWithoutAI dp now txt (header_value (headers message) ''From'')
       (header_value (headers message) ''Date'')"
  by (simp add: parseExpenseEmailWithoutAI_def Let_def)

lemma parse_email_atob_error:
  "htmlContent_of message = Inl err \<Longrightarrow> parseExpenseEmailWithoutAI dp now message = None"
  by (simp add: parseExpenseEmailWithoutAI_def Let_def)

lemma body_zero_fields:
  "extract_commerce body_zero = Some ''Uber''"
  "extract_montoMatch body_zero = Some [''USD'', ''0'']"
  "parseFloat ''0'' = Fin 0"
  unfolding body_zero_def by code_simp+

lemma body_negative_fields:
  "extract_commerce body_negative = Some ''Uber''"
  "extract_montoMatch body_negative = Some [''USD'', ''-3'']"
  "parseFloat ''-3'' = Fin (- 3)"
  unfolding body_negative_def by code_simp+

lemma body_infinity_parsed:
  "parseExpenseFromTextWithoutAI no_date 0 body_infinity [] [] =
     Some \<lparr> amount = PInf, merchant = ''Uber'', date = 0, category = Some ''Other'',
            location = Some ''Costa Rica'', currency = Some ''USD'' \<rparr>"
  unfolding body_infinity_def by code_simp

lemma body_infinity_fields:
  "extract_montoMatch body_infinity = Some [''USD'', ''Infinity'']"
  "parseFloat ''Infinity'' = PInf"
  unfolding body_infinity_def by code_simp+

text \<open>
  Claim C8, as the code has it. Extraction returns \<open>null\<close>, and never throws, exactly when
  the merchant is missing, the amount token is missing, or the token parses to NaN or to
  a number that is not greater than 0; so "0" and negative amounts are rejected. The
  e-mail entry point returns the same on the decoded body, and \<open>null\<close> when decoding
  fails. Finiteness is not tested.
\<close>

theorem extraction_null_iff_missing_or_not_positive:
  "(parseExpenseFromTextWithoutAI dp now txt frm hdr = None \<longleftrightarrow>
      merchant_missing txt \<or> amount_token txt = None \<or>
      (\<exists>a. amount_token txt = Some a \<and> (isNaN (parseFloat a) \<or> le_zero (parseFloat a)))) \<and>
   (htmlContent_of message = Inr txt \<and>
      (merchant_missing txt \<or> amount_token txt = None \<or>
       (\<exists>a. amount_token txt = Some a \<and> (isNaN (parseFloat a) \<or> le_zero (parseFloat a))))
    \<longrightarrow> parseExpenseEmailWithoutAI dp now message = None) \<and>
   (htmlContent_of message = Inl err \<longrightarrow> parseExpenseEmailWithoutAI dp now message = None)"
proof (intro conjI impI)
  show "parseExpenseFromTextWithoutAI dp now txt frm hdr = None \<longleftrightarrow>
      merchant_missing txt \<or> amount_token txt = None \<or>
      (\<exists>a. amount_token txt = Some a \<and> (isNaN (parseFloat a) \<or> le_zero (parseFloat a)))"
    by (rule parse_text_None_iff)
next
  assume h: "htmlContent_of message = Inr txt \<and>
      (merchant_missing txt \<or> amount_token txt = None \<or>
       (\<exists>a. amount_token txt = Some a \<and> (isNaN (parseFloat a) \<or> le_zero (parseFloat a))))"
  then show "parseExpenseEmailWithoutAI dp now message = None"
    by (simp add: parse_email_text parse_text_None_iff)
next
  assume "htmlContent_of message = Inl err"
  then show "parseExpenseEmailWithoutAI dp now message = None"
    by (rule parse_email_atob_error)
qed

theorem extraction_null_witness:
  "amount_token body_zero = Some ''0'' \<and> le_zero (parseFloat ''0'') \<and>
   parseExpenseFromTextWithoutAI no_date 0 body_zero [] [] = None \<and>
   amount_token body_negative = Some ''-3'' \<and> le_zero (parseFloat ''-3'') \<and>
   parseExpenseFromTextWithoutAI no_date 0 body_negative [] [] = None"
proof -
  have z: "amount_token body_zero = Some ''0''" and zl: "le_zero (parseFloat ''0'')"
    by (simp_all add: amount_token_def body_zero_fields)
  have n: "amount_token body_negative = Some ''-3''" and nl: "le_zero (parseFloat ''-3'')"
    by (simp_all add: amount_token_def body_negative_fields)
  from z zl have "parseExpenseFromTextWithoutAI no_date 0 body_zero [] [] = None"
    using extraction_null_iff_missing_or_not_positive [of no_date 0 body_zero "[]" "[]"] by blast
  moreover from n nl have "parseExpenseFromTextWithoutAI no_date 0 body_negative [] [] = None"
    using extraction_null_iff_missing_or_not_positive [of no_date 0 body_negative "[]" "[]"] by blast
  ultimately show ?thesis using z zl n nl by simp
qed

text \<open>The claim as stated fails: the amount "Infinity" is not a finite number, and the
  body is accepted with that amount.\<close>

theorem extraction_infinite_amount_counterexample:
  "amount_token body_infinity = Some ''Infinity'' \<and> parseFloat ''Infinity'' = PInf \<and>
   parseExpenseFromTextWithoutAI no_date 0 body_infinity [] [] \<noteq> None"
  by (simp add: amount_token_def body_infinity_fields body_infinity_parsed)

lemma body_dated_parsed:
  "parseExpenseFromTextWithoutAI sample_dateParse 0 body_dated [] ''Fri, 31 Oct 2025 12:00:00 +0000'' =
     Some \<lparr> amount = Fin 7, merchant = ''Uber'', date = 1759622400000, category = Some ''Other'',
            location = Some ''Costa Rica'', currency = Some ''USD'' \<rparr>"
  unfolding body_dated_def by code_simp

lemma body_uber_parsed_header_date:
  "parseExpenseFromTextWithoutAI sample_dateParse 0 body_uber [] ''Fri, 31 Oct 2025 12:00:00 +0000'' =
     Some \<lparr> amount = Fin (25 / 2), merchant = ''Uber'', date = 1761912000000, category = Some ''Other'',
            location = Some ''Costa Rica'', currency = Some ''USD'' \<rparr>"
  unfolding body_uber_def by code_simp

text \<open>
  Claim C9. The date of an extracted record is the date read from the body when the body
  states one that the engine can read; otherwise the date of the message's Date header
  when that can be read; otherwise the current time. (The engine reads no date from an
  empty text.)
\<close>

theorem date_resolution_order:
  assumes "parseExpenseFromTextWithoutAI dp now txt frm hdr = Some e"
    and "dp [] = None"
  shows "date e =
     (case body_date dp txt of
        Some t \<Rightarrow> t
      | None \<Rightarrow> (case dp hdr of Some t \<Rightarrow> t | None \<Rightarrow> now))"
  using assms
  unfolding parseExpenseFromTextWithoutAI_def Let_def resolve_date_def header_or_now_def body_date_def
  by (auto split: option.splits list.splits if_splits)

theorem date_resolution_order_witness:
  "parseExpenseFromTextWithoutAI sample_dateParse 0 body_dated [] ''Fri, 31 Oct 2025 12:00:00 +0000''
     = Some \<lparr> amount = Fin 7, merchant = ''Uber'', date = 1759622400000, category = Some ''Other'',
              location = Some ''Costa Rica'', currency = Some ''USD'' \<rparr> \<and>
   sample_dateParse [] = None \<and>
   (1759622400000 :: int) =
     (case body_date sample_dateParse body_dated of
        Some t \<Rightarrow> t
      | None \<Rightarrow> (case sample_dateParse ''Fri, 31 Oct 2025 12:00:00 +0000'' of Some t \<Rightarrow> t | None \<Rightarrow> 0))"
proof -
  have d: "sample_dateParse [] = None" by (simp add: sample_dateParse_def)
  from date_resolution_order [OF body_dated_parsed d] show ?thesis
    using body_dated_parsed d by simp
qed


section \<open>The repairing JSON parser\<close>

lemma parse_cases:
  "(\<exists>d cl. parse s = parse_ok d (length s) cl) \<or>
   parse s = \<lparr> success = False, data = None, error = Some AllStrategiesFailed,
               originalLength = length s, cleanedLength = length (cleanAndRepair s) \<rparr>"
  unfolding parse_def Let_def
  by (auto split: option.splits prod.splits)

lemma garbage_fails: "success (parse garbage) = False"
  unfolding garbage_def by code_simp

text \<open>
  Claim C6. \<open>parse\<close> is total: every \<open>JSON.parse\<close> that throws is caught, so each call
  returns a result. The result carries the success flag (set exactly when there is data),
  the length of the input, and the length of the text that was parsed or, on failure, of
  the cleaned text, with the error "all strategies failed". Binary garbage gives
  \<open>success = false\<close>.
\<close>

theorem parse_never_throws:
  "originalLength (parse s) = length s \<and>
   (success (parse s) \<longleftrightarrow> data (parse s) \<noteq> None) \<and>
   (success (parse s) \<or>
      (error (parse s) = Some AllStrategiesFailed \<and>
       cleanedLength (parse s) = length (cleanAndRepair s))) \<and>
   success (parse garbage) = False"
  using parse_cases [of s] garbage_fails
  by (auto simp: parse_ok_def)

lemma truncated_array_fails:
  "parse truncated_array =
     \<lparr> success = False, data = None, error = Some AllStrategiesFailed,
       originalLength = 24, cleanedLength = 17 \<rparr>"
  unfolding truncated_array_def by code_simp

lemma truncated_after_one_object:
  "data (parse truncated_after_one) = Some (JObj [(''a'', JNum ''1'')])"
  unfolding truncated_after_one_def by code_simp

lemma repaired_samples:
  "data (parse trailing_comma) = Some (JArr [JObj [(''a'', JNum ''1'')]])"
  "data (parse bareword_keys) = Some (JArr [JObj [(''a'', JNum ''1''), (''b_c'', JStr ''x'')]])"
  "data (parse doubled_escapes) = Some (JArr [JObj [(''m'', JStr ''UBER''), (''c'', JStr ''T'')]])"
  unfolding trailing_comma_def bareword_keys_def doubled_escapes_def by code_simp+

text \<open>
  Claim C7 fails on truncated arrays. An array cut after two complete elements is not
  repaired at all, and one cut after a single complete element is "repaired" to that
  element, an object where the original was an array. (Texts with a trailing comma, with
  bareword keys and with doubled escapes are repaired, see \<open>repaired_samples\<close>.)
\<close>

theorem truncated_array_not_repaired:
  "success (parse truncated_array) = False \<and>
   data (parse truncated_after_one) = Some (JObj [(''a'', JNum ''1'')])"
  by (simp add: truncated_array_fails truncated_after_one_object)


section \<open>The categorizer\<close>

lemma known_category_mem: "known_category v = Some c \<Longrightarrow> c \<in> set EXPENSE_CATEGORIES"
  by (cases v) (auto split: if_splits)

lemma categorize_element_label:
  "categorize_element x = Inr r \<Longrightarrow> label r \<in> set EXPENSE_CATEGORIES \<union> {''Unknown''}"
  unfolding categorize_element_def
  by (auto split: sum.splits option.splits dest: known_category_mem)

lemma categorize_elements_labels:
  "categorize_elements xs = Inr rs \<Longrightarrow> \<forall>r \<in> set rs. label r \<in> set EXPENSE_CATEGORIES \<union> {''Unknown''}"
proof (induction xs arbitrary: rs)
  case Nil then show ?case by simp
next
  case (Cons x xs)
  then show ?case
    by (auto split: sum.splits dest: categorize_element_label)
qed

lemma categorize_elements_length:
  "categorize_elements xs = Inr rs \<Longrightarrow> length rs = length xs"
  by (induction xs arbitrary: rs) (auto split: sum.splits)

lemma all_unknown_labels: "\<forall>r \<in> set (all_unknown es). label r \<in> set EXPENSE_CATEGORIES \<union> {''Unknown''}"
  by (simp add: all_unknown_def)

lemma label_by_index_origin: "map origin (label_by_index es cs) = map FromInput es"
  by (induction es cs rule: label_by_index.induct) simp_all

lemma label_by_index_labels:
  "set cs \<subseteq> S \<Longrightarrow> \<forall>r \<in> set (label_by_index es cs). label r \<in> S \<union> {''Unknown''}"
  by (induction es cs rule: label_by_index.induct) auto

lemma regex_path:
  assumes "\<nexists>xs. parseJSONWithRetry t 3 = JArr xs"
  shows "parseBatchResponse t chunk = Inr (extractCategoriesWithRegex t chunk)"
  using assms unfolding parseBatchResponse_def Let_def
  by (cases "parseJSONWithRetry t 3") auto

text \<open>The second branch of \<open>extractCategoriesWithRegex\<close> keeps only members of the set.\<close>

lemma regex_validated_branch_labels:
  assumes "match_all False re_category t = []"
  shows "\<forall>r \<in> set (extractCategoriesWithRegex t chunk). label r \<in> set EXPENSE_CATEGORIES \<union> {''Unknown''}"
proof -
  have "\<forall>r \<in> set (label_by_index chunk
            (filter (\<lambda>c. c \<in> set EXPENSE_CATEGORIES)
               (filter potential_category
                  (map (filter (\<lambda>c. c \<noteq> dq)) (match_all False re_quoted t))))).
          label r \<in> set EXPENSE_CATEGORIES \<union> {''Unknown''}"
    by (rule label_by_index_labels) auto
  with assms show ?thesis
    unfolding extractCategoriesWithRegex_def Let_def by simp
qed

text \<open>Either branch of \<open>extractCategoriesWithRegex\<close> keeps the records of the chunk one for
  one; when neither finds a category the result is empty.\<close>

lemma regex_keeps_or_drops_all:
  "extractCategoriesWithRegex t chunk = [] \<or>
   map origin (extractCategoriesWithRegex t chunk) = map FromInput chunk"
  unfolding extractCategoriesWithRegex_def Let_def
  by (simp add: label_by_index_origin)

lemma regex_found_origin:
  assumes "match_all False re_category t \<noteq> []"
  shows "map origin (extractCategoriesWithRegex t chunk) = map FromInput chunk"
  using assms unfolding extractCategoriesWithRegex_def Let_def
  by (simp add: label_by_index_origin)

lemma categorize_chunk_labels:
  assumes H: "\<forall>i chunk t. gemini i chunk = Inr t \<longrightarrow>
                (\<exists>xs. parseJSONWithRetry t 3 = JArr xs) \<or> match_all False re_category t = []"
    and r: "categorize_chunk gemini i chunk = Inr rs"
  shows "\<forall>r \<in> set rs. label r \<in> set EXPENSE_CATEGORIES \<union> {''Unknown''}"
proof -
  from r obtain t where t: "gemini i chunk = Inr t" and p: "parseBatchResponse t chunk = Inr rs"
    unfolding categorize_chunk_def callGeminiAPI_def
    by (auto split: sum.splits if_splits)
  show ?thesis
  proof (cases "\<exists>xs. parseJSONWithRetry t 3 = JArr xs")
    case True
    then obtain xs where xs: "parseJSONWithRetry t 3 = JArr xs" by blast
    from p xs have "categorize_elements xs = Inr rs"
      unfolding parseBatchResponse_def Let_def by simp
    then show ?thesis by (rule categorize_elements_labels)
  next
    case False
    with H t have m: "match_all False re_category t = []" by blast
    from False have "parseBatchResponse t chunk = Inr (extractCategoriesWithRegex t chunk)"
      by (rule regex_path)
    with p have "rs = extractCategoriesWithRegex t chunk" by simp
    with regex_validated_branch_labels [OF m, of chunk] show ?thesis by simp
  qed
qed

lemma chunk_loop_step:
  assumes "rest \<noteq> []"
  shows "chunk_loop gemini i rest =
     (case categorize_chunk gemini i (take maxBatchSize rest) of
           Inl e \<Rightarrow> (Inl e, [take maxBatchSize rest])
         | Inr chunkResult \<Rightarrow>
             (case chunk_loop gemini (Suc i) (drop maxBatchSize rest) of
                (Inl e, calls) \<Rightarrow> (Inl e, take maxBatchSize rest # calls)
              | (Inr results, calls) \<Rightarrow> (Inr (chunkResult @ results), take maxBatchSize rest # calls)))"
  using assms by (subst chunk_loop.simps) simp

lemma chunk_loop_Nil: "chunk_loop gemini i [] = (Inr [], [])"
  by (subst chunk_loop.simps) simp

lemma chunk_loop_labels:
  "\<forall>i chunk t. gemini i chunk = Inr t \<longrightarrow>
      (\<exists>xs. parseJSONWithRetry t 3 = JArr xs) \<or> match_all False re_category t = [] \<Longrightarrow>
   chunk_loop gemini i rest = (Inr rs, calls) \<Longrightarrow>
         \<forall>r \<in> set rs. label r \<in> set EXPENSE_CATEGORIES \<union> {''Unknown''}"
proof (induction gemini i rest arbitrary: rs calls rule: chunk_loop.induct)
  case (1 gemini i rest)
  show ?case
  proof (cases "rest = []")
    case True
    with "1.prems" show ?thesis by (simp add: chunk_loop_Nil)
  next
    case False
    from "1.prems"(2) False obtain cr rs' calls' where
      cr: "categorize_chunk gemini i (take maxBatchSize rest) = Inr cr" and
      rec: "chunk_loop gemini (Suc i) (drop maxBatchSize rest) = (Inr rs', calls')" and
      rs: "rs = cr @ rs'"
      by (auto simp: chunk_loop_step split: sum.splits prod.splits)
    have a: "\<forall>r \<in> set cr. label r \<in> set EXPENSE_CATEGORIES \<union> {''Unknown''}"
      using categorize_chunk_labels [OF "1.prems"(1) cr] .
    have b: "\<forall>r \<in> set rs'. label r \<in> set EXPENSE_CATEGORIES \<union> {''Unknown''}"
      using "1.IH" [OF False cr "1.prems"(1) rec] .
    from a b rs show ?thesis by auto
  qed
qed

text \<open>
  Every path of the categorizer but one returns a member of the set or \<open>Unknown\<close>: the
  parsed array, the validated branch of the scraping, the empty result and the handler of
  the batch. The exception is a text that is not read as an array and holds the pattern
  \<open>"category": "..."\<close>.
\<close>

lemma batch_labels:
  assumes "\<forall>i chunk t. gemini i chunk = Inr t \<longrightarrow>
             (\<exists>xs. parseJSONWithRetry t 3 = JArr xs) \<or> match_all False re_category t = []"
  shows "\<forall>r \<in> set (batchCategorizeExpenses gemini es). label r \<in> set EXPENSE_CATEGORIES \<union> {''Unknown''}"
proof (cases "maxBatchSize < length es")
  case True
  show ?thesis
  proof (cases "chunk_loop gemini 0 es")
    case (Pair r calls)
    show ?thesis
    proof (cases r)
      case (Inl e)
      with Pair True show ?thesis
        using all_unknown_labels [of es]
        by (simp add: batchCategorizeExpenses_def batchCategorizeExpenses_calls_def)
    next
      case (Inr rs)
      with Pair True chunk_loop_labels [OF assms, of 0 es rs calls] show ?thesis
        by (simp add: batchCategorizeExpenses_def batchCategorizeExpenses_calls_def)
    qed
  qed
next
  case False
  show ?thesis
  proof (cases "categorize_chunk gemini 0 es")
    case (Inl e)
    with False show ?thesis
      using all_unknown_labels [of es]
      by (simp add: batchCategorizeExpenses_def batchCategorizeExpenses_calls_def)
  next
    case (Inr rs)
    with False categorize_chunk_labels [OF assms Inr] show ?thesis
      by (simp add: batchCategorizeExpenses_def batchCategorizeExpenses_calls_def)
  qed
qed

lemma outside_value_coerced:
  assumes "map_of kvs ''category'' = Some (JStr s)" and "s \<notin> set EXPENSE_CATEGORIES"
  shows "categorize_element (JObj kvs) = Inr \<lparr> origin = FromResponse (JObj kvs), label = ''Unknown'' \<rparr>"
  using assms
  by (simp add: categorize_element_def or_unknown_def EXPENSE_CATEGORIES_def)

lemma bananas_json_parsed:
  "parseJSONWithRetry reply_bananas_json 3 = JArr [JObj [(''category'', JStr ''Bananas'')]]"
  unfolding reply_bananas_json_def by code_simp

text \<open>In a response that is an array, the category \<open>Bananas\<close> is replaced by the sentinel.\<close>

lemma bananas_json_labels:
  "map label (batchCategorizeExpenses service_bananas_json [expense_uber]) = [''Unknown'']"
  by code_simp

lemma bananas_text_labels:
  "map label (batchCategorizeExpenses service_bananas_text [expense_uber]) = [''Bananas'']"
  by code_simp

lemma bananas_text_scraped:
  "parseJSONWithRetry reply_bananas_text 3 = JNull"
  "match_all False re_category reply_bananas_text \<noteq> []"
  unfolding reply_bananas_text_def by code_simp+

text \<open>
  Claim C2. The claim asks that every category the batch categorizer returns be a member
  of the closed set or the sentinel, never a raw string of the response. It fails in the
  first branch of \<open>extractCategoriesWithRegex\<close>: for one expense and the response text
  \<open>{"category": "Bananas"\<close>, which no repair turns into an array, the category returned is
  the raw string \<open>Bananas\<close>, which is neither a member of the set nor \<open>Other\<close> nor
  \<open>Unknown\<close>.
\<close>

theorem scraped_category_returned_raw:
  "parseJSONWithRetry reply_bananas_text 3 = JNull \<and>
   map label (batchCategorizeExpenses service_bananas_text [expense_uber]) = [''Bananas''] \<and>
   ''Bananas'' \<notin> set EXPENSE_CATEGORIES \<and>
   ''Bananas'' \<noteq> ''Unknown''"
  using bananas_text_labels bananas_text_scraped(1) by (simp add: EXPENSE_CATEGORIES_def)


section \<open>Chunking and fallbacks of the categorizer\<close>
















lemma all_fail_chunk:
  assumes "\<forall>i c. \<exists>e. gemini i c = Inl e"
  shows "\<exists>e. categorize_chunk gemini i c = Inl e"
proof -
  from assms obtain e where "gemini i c = Inl e" by blast
  then show ?thesis unfolding categorize_chunk_def callGeminiAPI_def by simp
qed

text \<open>When every call of the service fails, the handler of the batch returns the input
  records one for one, each labelled \<open>Unknown\<close>.\<close>

lemma all_fail_batch:
  assumes "\<forall>i c. \<exists>e. gemini i c = Inl e"
  shows "batchCategorizeExpenses gemini es = all_unknown es"
proof -
  from all_fail_chunk [OF assms] obtain e1 where e1: "categorize_chunk gemini 0 es = Inl e1" by blast
  from all_fail_chunk [OF assms] obtain e2 where
    e2: "categorize_chunk gemini 0 (take maxBatchSize es) = Inl e2" by blast
  show ?thesis
  proof (cases "maxBatchSize < length es")
    case True
    then have "es \<noteq> []" by auto
    with True e2 show ?thesis
      by (simp add: batchCategorizeExpenses_def batchCategorizeExpenses_calls_def chunk_loop_step)
  next
    case False
    with e1 show ?thesis
      by (simp add: batchCategorizeExpenses_def batchCategorizeExpenses_calls_def)
  qed
qed

lemma empty_array_result:
  "batchCategorizeExpenses service_empty_array [expense_uber] = []"
  by code_simp

lemma down_result:
  "map label (batchCategorizeExpenses service_down [expense_shell]) = [''Unknown'']"
  "determineCategory (merchant expense_shell) = ''Transportation''"
  by code_simp+

text \<open>
  Claim C3. The claim asks for a result of the length of the input, record \<open>i\<close> at
  position \<open>i\<close>, and for the keyword classifier's category when the service fails. It
  fails on a response that is an array of another length: for one expense and the
  response \<open>[]\<close> the result is empty, so the record is lost. And with the service down
  the record of the merchant Shell comes back labelled \<open>Unknown\<close>, where the keyword
  classifier gives Transportation.
\<close>

theorem batch_drops_record_on_short_array:
  "batchCategorizeExpenses service_empty_array [expense_uber] = [] \<and>
   length (batchCategorizeExpenses service_empty_array [expense_uber]) \<noteq> length [expense_uber] \<and>
   map label (batchCategorizeExpenses service_down [expense_shell]) = [''Unknown''] \<and>
   determineCategory (merchant expense_shell) = ''Transportation''"
  by (simp add: empty_array_result down_result)












section \<open>The import orchestrator\<close>









lemma scenario_run_once:
  "processEmailsFromSender scenario_env [] ''noreply@bank.com'' 10 2025 =
     Inr (\<lparr> processed = 2, stored = 1, deleted = 0, errors = 0, transactions = [info_uber] \<rparr>,
          [row_uber])"
  by code_simp

lemma scenario_run_again:
  "processEmailsFromSender scenario_env [row_uber] ''noreply@bank.com'' 10 2025 =
     Inr (\<lparr> processed = 2, stored = 1, deleted = 0, errors = 0, transactions = [info_uber] \<rparr>,
          [row_uber, row_uber])"
  by code_simp

lemma scenario_window:
  "iso_date_part (window_start 0 2025 10) = 1759276800000"
  "iso_date_part (window_end 0 2025 10) = 1761868800000"
  by code_simp+

text \<open>A record dated inside the window is deleted by the second run and stored again.\<close>

lemma dated_run_once:
  "processEmailsFromSender dated_env [] ''noreply@bank.com'' 10 2025 =
     Inr (\<lparr> processed = 1, stored = 1, deleted = 0, errors = 0, transactions = [info_dated] \<rparr>,
          [row_dated])"
  by code_simp

lemma dated_run_again:
  "processEmailsFromSender dated_env [row_dated] ''noreply@bank.com'' 10 2025 =
     Inr (\<lparr> processed = 1, stored = 1, deleted = 1, errors = 0, transactions = [info_dated] \<rparr>,
          [row_dated])"
  by code_simp



text \<open>
  Claim C1. The claim asks that a second import with the same inputs leave as many records
  as the first. It fails for a record dated on the last day of the month: with local time
  UTC, the import of October 2025 has one message dated 31 October, noon. The first run
  stores one record. The second run asks to delete from 1 October to 31 October, which the
  server reads as ending at the midnight that starts 31 October; the record stays
  (\<open>deleted = 0\<close>) and is stored again, so two records are left.
\<close>

theorem reimport_duplicates_last_day:
  "processEmailsFromSender scenario_env [] ''noreply@bank.com'' 10 2025 =
     Inr (\<lparr> processed = 2, stored = 1, deleted = 0, errors = 0, transactions = [info_uber] \<rparr>,
          [row_uber]) \<and>
   processEmailsFromSender scenario_env [row_uber] ''noreply@bank.com'' 10 2025 =
     Inr (\<lparr> processed = 2, stored = 1, deleted = 0, errors = 0, transactions = [info_uber] \<rparr>,
          [row_uber, row_uber]) \<and>
   iso_date_part (window_end 0 2025 10) = 1761868800000 \<and>
   t_date row_uber = 1761912000000"
  using scenario_run_once scenario_run_again scenario_window(2) by (simp add: row_uber_def)




end
